theory Spec2Isabelle
  imports Main "HOL-Library.Word" "HOL-Library.Sublist" "HOL-Library.Multiset"
    "HOL-Library.Char_ord" "HOL-Library.List_Lexorder" "HOL-Library.AList"
begin

section \<open>Common data\<close>

text \<open>
  Go byte slices are lists of 8-bit words; Go strings that carry text (header values,
  tokens, error messages) are HOL strings. A \<open>uuid.UUID\<close> is a 16-byte array, read
  here as a 128-bit word.
\<close>

type_synonym byte = "8 word"
type_synonym bytes = "byte list"
type_synonym uuid = "128 word"

text \<open>
  A Go \<open>error\<close>. \<open>fmt.Errorf\<close> builds an error from its message; an error that
  comes back from the network stack also answers \<open>Timeout()\<close>, which is what
  \<open>os.IsTimeout\<close> asks.
\<close>

datatype error = Errorf string | NetError bool string

fun Error_text :: "error \<Rightarrow> string" where
  "Error_text (Errorf m) = m"
| "Error_text (NetError t m) = m"

fun os_IsTimeout :: "error \<Rightarrow> bool" where
  "os_IsTimeout (Errorf m) = False"
| "os_IsTimeout (NetError t m) = t"

text \<open>The decimal digits of a number, as \<open>%d\<close> prints them.\<close>

fun decimal :: "nat \<Rightarrow> string" where
  "decimal n =
     (if n < 10 then [''0123456789'' ! n]
      else decimal (n div 10) @ [''0123456789'' ! (n mod 10)])"

declare decimal.simps [simp del]

text \<open>\<open>HTTPRequest\<close> and \<open>HTTPResponse\<close> (main/handlers/httphelper/common.go).\<close>

record HTTPRequest =
  ID :: uuid
  Auth :: string
  Hash :: bytes

record HTTPResponse =
  StatusCode :: int
  Header :: "(string \<times> string list) list"
  Content :: bytes

section \<open>Library calls\<close>

text \<open>
  The envelope of the ubirch protocol library: \<open>ubirch.SignedUPP\<close> and
  \<open>ubirch.ChainedUPP\<close>, both behind the interface \<open>ubirch.UPP\<close>.
\<close>

datatype Version = Signed | Chained

datatype Hint = Binary | Disable | Enable | Delete

datatype UPP =
    SignedUPP Version uuid Hint bytes
  | ChainedUPP Version uuid bytes Hint bytes

fun GetPayload :: "UPP \<Rightarrow> bytes" where
  "GetPayload (SignedUPP v u h p) = p"
| "GetPayload (ChainedUPP v u s h p) = p"

fun GetPrevSignature :: "UPP \<Rightarrow> bytes" where
  "GetPrevSignature (SignedUPP v u h p) = []"
| "GetPrevSignature (ChainedUPP v u s h p) = s"

text \<open>
  A JSON text as \<open>encoding/json\<close> reads it: the members of an object in the order
  of the text (a key may occur twice), a number as its literal, a string unescaped.
\<close>

datatype json =
    JNull
  | JBool bool
  | JNumber string
  | JString string
  | JArray "json list"
  | JObject "(string \<times> json) list"

text \<open>
  The Go value that \<open>json.Unmarshal\<close> stores into an \<open>interface{}\<close>: \<open>nil\<close>,
  \<open>bool\<close>, \<open>float64\<close> (kept as the text \<open>json.Marshal\<close> prints for it),
  \<open>string\<close>, \<open>[]interface{}\<close> and \<open>map[string]interface{}\<close>. A Go map has one
  entry per key and no order: it is an association list whose order nothing reads but
  through \<open>sort_key\<close>.
\<close>

datatype gval =
    GNil
  | GBool bool
  | GFloat string
  | GString string
  | GSlice "gval list"
  | GMap "(string \<times> gval) list"

text \<open>\<open>signingResponse\<close> (main/handlers/signer.go).\<close>

record signingResponse =
  sr_Error :: string
  sr_Hash :: bytes
  sr_UPP :: bytes
  sr_Response :: HTTPResponse
  sr_RequestID :: string

text \<open>
  The functions of Go's standard library and of the uuid and ubirch protocol libraries
  that the handlers call. Their code is not part of the repository: every theorem holds
  for whatever they compute.
\<close>

record Lib =
  uuid_Parse :: "string \<Rightarrow> error + uuid"
  uuid_FromBytes :: "bytes \<Rightarrow> error + uuid"
  uuid_String :: "uuid \<Rightarrow> string"
  strings_ToLower :: "string \<Rightarrow> string"
  hex_DecodeString :: "string \<Rightarrow> bytes \<times> error option"
  base64_DecodeString :: "string \<Rightarrow> bytes \<times> error option"
  sha256_Sum256 :: "bytes \<Rightarrow> bytes"
  http_StatusText :: "int \<Rightarrow> string"
  json_Marshal :: "signingResponse \<Rightarrow> bytes"
  json_syntax :: "bytes \<Rightarrow> error + json"
  json_number :: "string \<Rightarrow> string"
  json_quote :: "string \<Rightarrow> string"
  json_Compact :: "bytes \<Rightarrow> error + bytes"
  Protocol_Sign :: "bytes \<Rightarrow> UPP \<Rightarrow> error + bytes"
  ubirch_Decode :: "bytes \<Rightarrow> error + UPP"

text \<open>The conversions \<open>[]byte(s)\<close> and \<open>string(b)\<close>.\<close>

definition bytes_of :: "string \<Rightarrow> bytes" where
  "bytes_of s = map of_char s"

definition string_of :: "bytes \<Rightarrow> string" where
  "string_of b = map (\<lambda>w. char_of (unat w)) b"

text \<open>
  \<open>Client.sendToAuthService\<close>: the HTTPS POST of an envelope to the attestation
  backend, with the uid and the auth token of the request.
\<close>

type_synonym backend = "uuid \<Rightarrow> string \<Rightarrow> bytes \<Rightarrow> error + HTTPResponse"

section \<open>The HTTP helpers (main/vars/vars.go, main/handlers/httphelper)\<close>

definition UUIDKey :: string where "UUIDKey = ''uuid''"
definition OperationKey :: string where "OperationKey = ''operation''"
definition HashEndpoint :: string where "HashEndpoint = ''hash''"
definition BinType :: string where "BinType = ''application/octet-stream''"
definition TextType :: string where "TextType = ''text/plain''"
definition JSONType :: string where "JSONType = ''application/json''"
definition HexEncoding :: string where "HexEncoding = ''hex''"
definition HashLen :: nat where "HashLen = 32"

text \<open>
  What a handler reads of an \<open>http.Request\<close>: the URL parameters the router bound,
  the URL path, the header (keys in canonical form) and what reading the body gave.
\<close>

record Request =
  URLParams :: "(string \<times> string) list"
  URLPath :: string
  ReqHeader :: "(string \<times> string list) list"
  Body :: "error + bytes"

text \<open>\<open>chi.URLParam\<close> and \<open>http.Header.Get\<close>: the empty string when the key is absent.\<close>

definition URLParam :: "Request \<Rightarrow> string \<Rightarrow> string" where
  "URLParam r k = (case map_of (URLParams r) k of None \<Rightarrow> [] | Some v \<Rightarrow> v)"

definition Header_Get :: "(string \<times> string list) list \<Rightarrow> string \<Rightarrow> string" where
  "Header_Get h k = (case map_of h k of None \<Rightarrow> [] | Some [] \<Rightarrow> [] | Some (v # vs) \<Rightarrow> v)"

definition ContentType :: "Lib \<Rightarrow> (string \<times> string list) list \<Rightarrow> string" where
  "ContentType L header = strings_ToLower L (Header_Get header ''Content-Type'')"

definition ContentEncoding :: "Lib \<Rightarrow> (string \<times> string list) list \<Rightarrow> string" where
  "ContentEncoding L header = strings_ToLower L (Header_Get header ''Content-Transfer-Encoding'')"

definition AuthToken_of :: "(string \<times> string list) list \<Rightarrow> string" where
  "AuthToken_of header = Header_Get header ''X-Auth-Token''"

definition GetUUID :: "Lib \<Rightarrow> Request \<Rightarrow> error + uuid" where
  "GetUUID L r =
     (let uuidParam = URLParam r UUIDKey in
      case uuid_Parse L uuidParam of
        Inl err \<Rightarrow> Inl (Errorf (''invalid UUID: \"'' @ uuidParam @ ''\": '' @ Error_text err))
      | Inr uid \<Rightarrow> Inr uid)"

definition CheckAuth :: "Request \<Rightarrow> string \<Rightarrow> error + string" where
  "CheckAuth r actualAuth =
     (let headerAuthToken = AuthToken_of (ReqHeader r) in
      if actualAuth \<noteq> headerAuthToken then Inl (Errorf ''invalid auth token'')
      else Inr headerAuthToken)"

definition readBody :: "Request \<Rightarrow> error + bytes" where
  "readBody r =
     (case Body r of
        Inl err \<Rightarrow> Inl (Errorf (''unable to read request body: '' @ Error_text err))
      | Inr rBody \<Rightarrow> Inr rBody)"

definition isHashRequest :: "Request \<Rightarrow> bool" where
  "isHashRequest r = suffix HashEndpoint (URLPath r)"

subsection \<open>Sorted compact JSON\<close>

text \<open>
  \<open>json.Unmarshal\<close> into an \<open>interface{}\<close>, after the text has been read
  (\<open>json_syntax\<close>): an object is stored member by member into a fresh map, so a key
  that occurs again overwrites the entry of its earlier occurrence.
\<close>

fun Unmarshal_value :: "Lib \<Rightarrow> json \<Rightarrow> gval" where
  "Unmarshal_value L JNull = GNil"
| "Unmarshal_value L (JBool b) = GBool b"
| "Unmarshal_value L (JNumber lit) = GFloat (json_number L lit)"
| "Unmarshal_value L (JString s) = GString s"
| "Unmarshal_value L (JArray xs) = GSlice (map (Unmarshal_value L) xs)"
| "Unmarshal_value L (JObject ms) =
     GMap (foldl (\<lambda>m (k, v). AList.update k v m) []
             (map (\<lambda>(k, v). (k, Unmarshal_value L v)) ms))"

text \<open>
  The encoder of \<open>encoding/json\<close>: it writes the entries of a map in the order of
  their keys, with no space between the tokens. \<open>sortKeys\<close> puts every map of a value
  into that order, \<open>encode\<close> writes the value out.
\<close>

fun sortKeys :: "gval \<Rightarrow> gval" where
  "sortKeys (GSlice xs) = GSlice (map sortKeys xs)"
| "sortKeys (GMap m) = GMap (sort_key fst (map (\<lambda>(k, v). (k, sortKeys v)) m))"
| "sortKeys v = v"

fun join_comma :: "string list \<Rightarrow> string" where
  "join_comma [] = []"
| "join_comma [x] = x"
| "join_comma (x # y # ys) = x @ '','' @ join_comma (y # ys)"

fun encode :: "Lib \<Rightarrow> gval \<Rightarrow> string" where
  "encode L GNil = ''null''"
| "encode L (GBool b) = (if b then ''true'' else ''false'')"
| "encode L (GFloat s) = s"
| "encode L (GString s) = json_quote L s"
| "encode L (GSlice xs) = ''['' @ join_comma (map (encode L) xs) @ '']''"
| "encode L (GMap m) =
     ''{'' @ join_comma (map (\<lambda>(k, v). json_quote L k @ '':'' @ encode L v) m) @ ''}''"

text \<open>
  \<open>jsonMarshal\<close>: \<open>Encoder.Encode\<close> writes the encoding and a newline.
  \<open>SetEscapeHTML(false)\<close> is a setting of \<open>json_quote\<close>. A value that
  \<open>json.Unmarshal\<close> produced has no channel, function or NaN in it, so the encoder
  returns no error.
\<close>

definition jsonMarshal :: "Lib \<Rightarrow> gval \<Rightarrow> bytes" where
  "jsonMarshal L v = bytes_of (encode L (sortKeys v) @ [CHR 0x0A])"

definition GetSortedCompactJSON :: "Lib \<Rightarrow> bytes \<Rightarrow> error + bytes" where
  "GetSortedCompactJSON L data =
     (case json_syntax L data of
        Inl err \<Rightarrow> Inl (Errorf (''unable to parse JSON request body: '' @ Error_text err))
      | Inr doc \<Rightarrow>
          (let sortedJson = jsonMarshal L (Unmarshal_value L doc) in
           case json_Compact L sortedJson of
             Inl err \<Rightarrow> Inl (Errorf (''unable to compact json object: '' @ Error_text err))
           | Inr sortedCompactJson \<Rightarrow> Inr sortedCompactJson))"

subsection \<open>The order of the keys\<close>

text \<open>
  What the specification calls a permutation of the keys of a JSON text: \<open>key_perm\<close>
  relates two texts when one is got from the other by reordering the members of
  objects, at any depth. \<open>distinct_keys\<close> says that no object of a text, at any depth,
  has a key twice. \<open>canon\<close> is the value whose encoding \<open>jsonMarshal\<close> writes.
\<close>

fun distinct_keys :: "json \<Rightarrow> bool" where
  "distinct_keys (JArray xs) = list_all distinct_keys xs"
| "distinct_keys (JObject ms) = (distinct (map fst ms) \<and> list_all (\<lambda>(k, v). distinct_keys v) ms)"
| "distinct_keys v = True"

inductive key_perm :: "json \<Rightarrow> json \<Rightarrow> bool" where
  same: "key_perm d d"
| members: "mset ms' = mset ms \<Longrightarrow> key_perm (JObject ms) (JObject ms')"
| step: "key_perm a b \<Longrightarrow> key_perm b c \<Longrightarrow> key_perm a c"
| element: "key_perm a b \<Longrightarrow> key_perm (JArray (xs @ a # ys)) (JArray (xs @ b # ys))"
| member: "key_perm a b \<Longrightarrow> key_perm (JObject (ms @ (k, a) # ns)) (JObject (ms @ (k, b) # ns))"

definition canon :: "Lib \<Rightarrow> json \<Rightarrow> gval" where
  "canon L d = sortKeys (Unmarshal_value L d)"

subsection \<open>The hash of a request\<close>

definition getHashFromDataRequest ::
  "Lib \<Rightarrow> (string \<times> string list) list \<Rightarrow> bytes \<Rightarrow> error + bytes" where
  "getHashFromDataRequest L header data =
     (if ContentType L header = JSONType then
        (case GetSortedCompactJSON L data of
           Inl err \<Rightarrow> Inl err
         | Inr sortedData \<Rightarrow> Inr (sha256_Sum256 L sortedData))
      else if ContentType L header = BinType then Inr (sha256_Sum256 L data)
      else Inl (Errorf (''invalid content-type for original data: expected (\"''
                        @ BinType @ ''\" | \"'' @ JSONType @ ''\")'')))"

text \<open>
  \<open>getHashFromHashRequest\<close>. The text case decodes the body (a decoder returns the
  bytes it decoded and its error, as in Go) and falls through to the length check of
  the binary case; \<open>copy(hash[:], data)\<close> of 32 bytes is the data. A \<open>Sha256Sum\<close> is
  the list of its 32 bytes.
\<close>

definition checkHashLen :: "bytes \<Rightarrow> error + bytes" where
  "checkHashLen data =
     (if length data \<noteq> HashLen
      then Inl (Errorf (''invalid SHA256 hash size: expected '' @ decimal HashLen
                        @ '' bytes, got '' @ decimal (length data) @ '' bytes''))
      else Inr data)"

definition getHashFromHashRequest ::
  "Lib \<Rightarrow> (string \<times> string list) list \<Rightarrow> bytes \<Rightarrow> error + bytes" where
  "getHashFromHashRequest L header data =
     (if ContentType L header = TextType then
        (if ContentEncoding L header = HexEncoding then
           (case hex_DecodeString L (string_of data) of
              (decoded, Some err) \<Rightarrow>
                Inl (Errorf (''decoding hex encoded hash failed: '' @ Error_text err
                             @ '' ('' @ string_of decoded @ '')''))
            | (decoded, None) \<Rightarrow> checkHashLen decoded)
         else
           (case base64_DecodeString L (string_of data) of
              (decoded, Some err) \<Rightarrow>
                Inl (Errorf (''decoding base64 encoded hash failed: '' @ Error_text err
                             @ '' ('' @ string_of decoded @ '')''))
            | (decoded, None) \<Rightarrow> checkHashLen decoded))
      else if ContentType L header = BinType then checkHashLen data
      else Inl (Errorf (''invalid content-type for hash: expected (\"''
                        @ BinType @ ''\" | \"'' @ TextType @ ''\")'')))"

definition GetHash :: "Lib \<Rightarrow> Request \<Rightarrow> error + bytes" where
  "GetHash L r =
     (case readBody r of
        Inl err \<Rightarrow> Inl err
      | Inr rBody \<Rightarrow>
          if isHashRequest r then getHashFromHashRequest L (ReqHeader r) rBody
          else getHashFromDataRequest L (ReqHeader r) rBody)"

section \<open>The identity and the protocol (main/protocol.go, main/handlers/protocol.go)\<close>

text \<open>
  \<open>ent.Identity\<close> and the \<open>Identity\<close> struct of main/protocol.go. The uid is kept
  as the string the struct holds.
\<close>

record Identity =
  Uid :: string
  PrivateKey :: bytes
  PublicKey :: bytes
  Signature :: bytes
  AuthToken :: string

text \<open>
  Modelled from the spec: \<open>SignatureLength\<close> is a method of the ubirch protocol
  library, which is not part of the sources; section 4.1 fixes the length of a
  signature to exactly 64 bytes.
\<close>

definition SignatureLength :: nat where
  "SignatureLength = 64"

text \<open>\<open>ExtendedProtocol.checkSignatureLen\<close>: \<open>None\<close> is Go's \<open>nil\<close> error.\<close>

definition checkSignatureLen :: "bytes \<Rightarrow> error option" where
  "checkSignatureLen signature =
     (if length signature \<noteq> SignatureLength
      then Some (Errorf (''invalid signature length: expected '' @ decimal SignatureLength
                         @ '', got '' @ decimal (length signature)))
      else None)"

text \<open>
  The \<open>Signer\<close> struct (main/handlers/signer.go): the protocol library and the
  client of the backend.
\<close>

record Signer =
  Protocol :: Lib
  Client :: backend

text \<open>
  The \<open>ContextManager\<close> interface, as a record of its methods over the state \<open>'s\<close> of
  the implementation behind it (the file and the database manager are not part of the
  sources). The getters read the state; \<open>StoreIdentity\<close> and \<open>SendChainedUpp\<close>
  return the state they leave. \<open>SendChainedUpp\<close> is handed the signer, which
  builds the chained envelope and sends it.
\<close>

record 's ContextManager =
  cm_GetPrivateKey :: "'s \<Rightarrow> uuid \<Rightarrow> error + bytes"
  cm_GetPublicKey :: "'s \<Rightarrow> uuid \<Rightarrow> error + bytes"
  cm_GetSignature :: "'s \<Rightarrow> uuid \<Rightarrow> error + bytes"
  cm_GetAuthToken :: "'s \<Rightarrow> uuid \<Rightarrow> error + string"
  cm_StoreIdentity :: "'s \<Rightarrow> Identity \<Rightarrow> error option \<times> 's"
  cm_SendChainedUpp :: "'s \<Rightarrow> HTTPRequest \<Rightarrow> Signer \<Rightarrow> (error + HTTPResponse) \<times> 's"

text \<open>\<open>ExtendedProtocol.GetSignature\<close> (main/protocol.go).\<close>

definition GetSignature :: "'s ContextManager \<Rightarrow> 's \<Rightarrow> uuid \<Rightarrow> error + bytes" where
  "GetSignature cm st uid =
     (case cm_GetSignature cm st uid of
        Inl err \<Rightarrow> Inl err
      | Inr signature \<Rightarrow>
          (case checkSignatureLen signature of
             Some err \<Rightarrow> Inl err
           | None \<Rightarrow> Inr signature))"

text \<open>
  \<open>ExtendedProtocol.StoreIdentity\<close> (main/handlers/protocol.go). A \<open>nil\<close> slice and an
  empty one both have length 0.
\<close>

definition StoreIdentity :: "'s ContextManager \<Rightarrow> 's \<Rightarrow> Identity \<Rightarrow> error option \<times> 's" where
  "StoreIdentity cm st ident =
     (if length (AuthToken ident) = 0 then (Some (Errorf (Uid ident @ '': empty token'')), st)
      else case checkSignatureLen (Signature ident) of
        Some err \<Rightarrow> (Some (Errorf (Uid ident @ '': '' @ Error_text err)), st)
      | None \<Rightarrow>
          if length (PrivateKey ident) = 0 then (Some (Errorf ''private key is empty''), st)
          else if length (PublicKey ident) = 0 then (Some (Errorf ''public key is empty''), st)
          else cm_StoreIdentity cm st ident)"

text \<open>\<open>ExtendedProtocol.GetAuthToken\<close> (main/handlers/protocol.go).\<close>

definition GetAuthToken :: "Lib \<Rightarrow> 's ContextManager \<Rightarrow> 's \<Rightarrow> uuid \<Rightarrow> error + string" where
  "GetAuthToken L cm st uid =
     (case cm_GetAuthToken cm st uid of
        Inl err \<Rightarrow> Inl err
      | Inr authToken \<Rightarrow>
          if length authToken = 0 then Inl (Errorf (uuid_String L uid @ '': empty auth token''))
          else Inr authToken)"

section \<open>The signer (main/handlers/signer.go, main/handlers/httphelper/resp.go)\<close>

type_synonym operation = string

definition anchorHash :: operation where "anchorHash = ''anchor''"
definition disableHash :: operation where "disableHash = ''disable''"
definition enableHash :: operation where "enableHash = ''enable''"
definition deleteHash :: operation where "deleteHash = ''delete''"
definition lenRequestID :: nat where "lenRequestID = 16"

definition hintLookup :: "operation \<Rightarrow> Hint option" where
  "hintLookup =
     map_of [(anchorHash, Binary), (disableHash, Disable), (enableHash, Enable),
             (deleteHash, Delete)]"

text \<open>The status codes of \<open>net/http\<close> that the handlers name.\<close>

definition StatusBadRequest :: int where "StatusBadRequest = 400"
definition StatusUnauthorized :: int where "StatusUnauthorized = 401"
definition StatusNotFound :: int where "StatusNotFound = 404"
definition StatusInternalServerError :: int where "StatusInternalServerError = 500"
definition StatusGatewayTimeout :: int where "StatusGatewayTimeout = 504"

definition ErrorResponse :: "Lib \<Rightarrow> int \<Rightarrow> string \<Rightarrow> HTTPResponse" where
  "ErrorResponse L code message =
     \<lparr>StatusCode = code,
      Header = [(''Content-Type'', [''text/plain; charset=utf-8''])],
      Content = bytes_of (if message = [] then http_StatusText L code else message)\<rparr>"

text \<open>
  \<open>GetChainedUPP\<close> and \<open>getSignedUPP\<close>: the envelope that is handed, with the private
  key, to \<open>Protocol.Sign\<close> of the library, which returns the signed envelope.
  \<open>GetChainedUPP\<close> puts the signature it is given into the field \<open>PrevSignature\<close>
  as it is. (The variant that takes an \<open>ent.Identity\<close> reads the signature and the uid
  from the identity and is otherwise the same.)
\<close>

definition GetChainedUPP :: "Signer \<Rightarrow> uuid \<Rightarrow> bytes \<Rightarrow> bytes \<Rightarrow> bytes \<Rightarrow> error + bytes" where
  "GetChainedUPP s uid hash decryptedPrivate signature =
     Protocol_Sign (Protocol s) decryptedPrivate (ChainedUPP Chained uid signature Binary hash)"

definition getSignedUPP :: "Signer \<Rightarrow> uuid \<Rightarrow> bytes \<Rightarrow> bytes \<Rightarrow> operation \<Rightarrow> error + bytes" where
  "getSignedUPP s uid hash decryptedPrivate op =
     (case hintLookup op of
        None \<Rightarrow> Inl (Errorf (uuid_String (Protocol s) uid @ '': invalid operation: \"''
                             @ op @ ''\"''))
      | Some hint \<Rightarrow>
          Protocol_Sign (Protocol s) decryptedPrivate (SignedUPP Signed uid hint hash))"

text \<open>
  \<open>getRequestID\<close> returns the request ID beside the error. The error is only
  logged by the caller; its message ends with the payload, quoted, which is left out.
\<close>

definition getRequestID :: "Lib \<Rightarrow> UPP \<Rightarrow> string \<times> error option" where
  "getRequestID L respUPP =
     (let respPayload = GetPayload respUPP in
      if length respPayload < lenRequestID
      then (''n/a'', Some (Errorf ''response payload does not contain request ID: ''))
      else case uuid_FromBytes L (take lenRequestID respPayload) of
             Inl err \<Rightarrow> (''n/a'', Some err)
           | Inr requestID \<Rightarrow> (uuid_String L requestID, None))"

definition getSigningResponse ::
  "Lib \<Rightarrow> int \<Rightarrow> HTTPRequest \<Rightarrow> bytes \<Rightarrow> HTTPResponse \<Rightarrow> string \<Rightarrow> string \<Rightarrow> HTTPResponse" where
  "getSigningResponse L respCode msg upp backendResp requestID errMsg =
     \<lparr>StatusCode = respCode,
      Header = [(''Content-Type'', [''application/json''])],
      Content = json_Marshal L \<lparr>sr_Error = errMsg, sr_Hash = Hash msg, sr_UPP = upp,
                                sr_Response = backendResp, sr_RequestID = requestID\<rparr>\<rparr>"

definition SendUPP :: "Signer \<Rightarrow> HTTPRequest \<Rightarrow> bytes \<Rightarrow> HTTPResponse" where
  "SendUPP s msg upp =
     (case Client s (ID msg) (Auth msg) upp of
        Inl err \<Rightarrow>
          if os_IsTimeout err then ErrorResponse (Protocol s) StatusGatewayTimeout []
          else ErrorResponse (Protocol s) StatusInternalServerError []
      | Inr backendResp \<Rightarrow>
          (let requestID =
                 (case ubirch_Decode (Protocol s) (Content backendResp) of
                    Inl err \<Rightarrow> []
                  | Inr responseUPPStruct \<Rightarrow> fst (getRequestID (Protocol s) responseUPPStruct))
           in getSigningResponse (Protocol s) (StatusCode backendResp) msg upp backendResp
                requestID []))"

definition Sign :: "Signer \<Rightarrow> 's ContextManager \<Rightarrow> 's \<Rightarrow> HTTPRequest \<Rightarrow> operation \<Rightarrow> HTTPResponse" where
  "Sign s cm st msg op =
     (case cm_GetPrivateKey cm st (ID msg) of
        Inl err \<Rightarrow> ErrorResponse (Protocol s) StatusInternalServerError []
      | Inr pemPrivateKey \<Rightarrow>
          (case getSignedUPP s (ID msg) (Hash msg) pemPrivateKey op of
             Inl err \<Rightarrow> ErrorResponse (Protocol s) StatusInternalServerError []
           | Inr uppBytes \<Rightarrow> SendUPP s msg uppBytes))"

section \<open>The services (main/handlers/services.go)\<close>

text \<open>
  What a handler writes: \<open>h.Error\<close> calls \<open>http.Error\<close> with the message of the error
  and a status code, which \<open>net/http\<close> sends as a line of plain text;
  \<open>h.SendResponse\<close> forwards a response.
\<close>

datatype Reply = http_Error string int | SendResponse HTTPResponse

definition getOperation :: "Request \<Rightarrow> error + operation" where
  "getOperation r =
     (let opParam = URLParam r OperationKey in
      if opParam = anchorHash \<or> opParam = disableHash \<or> opParam = enableHash
         \<or> opParam = deleteHash
      then Inr opParam
      else Inl (Errorf (''invalid operation: expected (\"'' @ anchorHash @ ''\" | \"''
                        @ disableHash @ ''\" | \"'' @ enableHash @ ''\" | \"'' @ deleteHash
                        @ ''\"), got \"'' @ opParam @ ''\"'')))"

definition ChainingService_HandleRequest ::
  "Signer \<Rightarrow> 's ContextManager \<Rightarrow> 's \<Rightarrow> Request \<Rightarrow> Reply \<times> 's" where
  "ChainingService_HandleRequest c cm st r =
     (case GetUUID (Protocol c) r of
        Inl err \<Rightarrow> (http_Error (Error_text err) StatusNotFound, st)
      | Inr uid \<Rightarrow>
     (case GetAuthToken (Protocol c) cm st uid of
        Inl err \<Rightarrow> (http_Error (Error_text err) StatusInternalServerError, st)
      | Inr idAuth \<Rightarrow>
     (case CheckAuth r idAuth of
        Inl err \<Rightarrow> (http_Error (Error_text err) StatusUnauthorized, st)
      | Inr auth \<Rightarrow>
     (case GetHash (Protocol c) r of
        Inl err \<Rightarrow> (http_Error (Error_text err) StatusBadRequest, st)
      | Inr hash \<Rightarrow>
     (case cm_SendChainedUpp cm st \<lparr>ID = uid, Auth = auth, Hash = hash\<rparr> c of
        (Inl err, st') \<Rightarrow> (http_Error (Error_text err) StatusInternalServerError, st')
      | (Inr resp, st') \<Rightarrow> (SendResponse resp, st'))))))"

definition SigningService_HandleRequest ::
  "Signer \<Rightarrow> 's ContextManager \<Rightarrow> 's \<Rightarrow> Request \<Rightarrow> Reply \<times> 's" where
  "SigningService_HandleRequest s cm st r =
     (case GetUUID (Protocol s) r of
        Inl err \<Rightarrow> (http_Error (Error_text err) StatusNotFound, st)
      | Inr uid \<Rightarrow>
     (case GetAuthToken (Protocol s) cm st uid of
        Inl err \<Rightarrow> (http_Error (Error_text err) StatusInternalServerError, st)
      | Inr idAuth \<Rightarrow>
     (case CheckAuth r idAuth of
        Inl err \<Rightarrow> (http_Error (Error_text err) StatusUnauthorized, st)
      | Inr auth \<Rightarrow>
     (case getOperation r of
        Inl err \<Rightarrow> (http_Error (Error_text err) StatusNotFound, st)
      | Inr op \<Rightarrow>
     (case GetHash (Protocol s) r of
        Inl err \<Rightarrow> (http_Error (Error_text err) StatusBadRequest, st)
      | Inr hash \<Rightarrow>
          (SendResponse (Sign s cm st \<lparr>ID = uid, Auth = auth, Hash = hash\<rparr> op), st))))))"

section \<open>The configuration (main/config.go)\<close>

definition DEV_STAGE :: string where "DEV_STAGE = ''dev''"
definition DEMO_STAGE :: string where "DEMO_STAGE = ''demo''"
definition PROD_STAGE :: string where "PROD_STAGE = ''prod''"

text \<open>\<open>fmt.Sprintf\<close> of the three URL patterns, each with one \<open>%s\<close>.\<close>

definition KEY_URL :: "string \<Rightarrow> string" where
  "KEY_URL env = ''https://key.'' @ env @ ''.ubirch.com/api/keyService/v1/pubkey''"
definition NIOMON_URL :: "string \<Rightarrow> string" where
  "NIOMON_URL env = ''https://niomon.'' @ env @ ''.ubirch.com/''"
definition VERIFY_URL :: "string \<Rightarrow> string" where
  "VERIFY_URL env = ''https://verify.'' @ env @ ''.ubirch.com/api/upp''"

text \<open>The \<open>Config\<close> struct; a Go map that is \<open>nil\<close> or empty is the empty list.\<close>

record Config =
  Devices :: "(string \<times> string) list"
  Secret :: string
  DSN :: string
  StaticUUID :: bool
  Env :: string
  TLS :: bool
  CertFile :: string
  KeyFile :: string
  Debug :: bool
  KeyService :: string
  Niomon :: string
  VerifyService :: string
  SecretBytes :: bytes

text \<open>
  A Go call returns or panics. The methods of \<open>Config\<close> work on the struct behind the
  pointer: a returning call gives its error (\<open>None\<close> for \<open>nil\<close>) and the struct as
  it leaves it.
\<close>

datatype 'a outcome = Returns 'a | Panics string

text \<open>\<open>strings.Split\<close> with a separator of one character, and \<open>strings.TrimSuffix\<close>.\<close>

fun strings_Split :: "string \<Rightarrow> char \<Rightarrow> string list" where
  "strings_Split [] sep = [[]]"
| "strings_Split (x # xs) sep =
     (if x = sep then [] # strings_Split xs sep
      else case strings_Split xs sep of
             [] \<Rightarrow> [[x]]
           | p # ps \<Rightarrow> (x # p) # ps)"

definition strings_TrimSuffix :: "string \<Rightarrow> string \<Rightarrow> string" where
  "strings_TrimSuffix s suf = (if suffix suf s then take (length s - length suf) s else s)"

definition checkMandatory :: "Config \<Rightarrow> error option" where
  "checkMandatory c =
     (if length (Devices c) = 0
      then Some (Errorf (''There are no devices authorized to use this client.'' @ [CHR 0x0A]
             @ ''It is mandatory to set at least one device UUID and auth token in the configuration.''
             @ [CHR 0x0A]
             @ ''For more information take a look at the README under 'Configuration'.''))
      else if length (SecretBytes c) \<noteq> 16
      then Some (Errorf (''secret length must be 16 bytes (is ''
                         @ decimal (length (SecretBytes c)) @ '')''))
      else None)"

text \<open>
  \<open>setDefaultTLS\<close>: \<open>Path\<close> is a variable of the package that the sources do not
  declare, and \<open>filepath.Join\<close> is the library's; both are parameters.
\<close>

definition setDefaultTLS :: "(string \<Rightarrow> string \<Rightarrow> string) \<Rightarrow> string \<Rightarrow> Config \<Rightarrow> Config" where
  "setDefaultTLS filepath_Join Path c =
     (if TLS c then
        (let c1 = (if CertFile c = [] then c\<lparr>CertFile := filepath_Join Path ''cert.pem''\<rparr> else c)
         in if KeyFile c1 = [] then c1\<lparr>KeyFile := filepath_Join Path ''key.pem''\<rparr> else c1)
      else c)"

text \<open>
  \<open>setDefaultURLs\<close>. The index expression \<open>strings.Split(c.Niomon, ".")[1]\<close> panics
  when the slice has one element.
\<close>

definition setDefaultURLs :: "Config \<Rightarrow> (error option \<times> Config) outcome" where
  "setDefaultURLs c =
     (let c1 = (if Env c = [] then c\<lparr>Env := PROD_STAGE\<rparr> else c);
          c2 = (if Niomon c1 = [] then c1\<lparr>Niomon := NIOMON_URL (Env c1)\<rparr> else c1);
          parts = strings_Split (Niomon c2) (CHR ''.'')
      in if length parts \<le> 1
         then Panics (''runtime error: index out of range [1] with length ''
                      @ decimal (length parts))
         else
           (let c3 = c2\<lparr>Env := parts ! 1\<rparr> in
            if \<not> (Env c3 = DEV_STAGE \<or> Env c3 = DEMO_STAGE \<or> Env c3 = PROD_STAGE)
            then Returns (Some (Errorf (''invalid UBIRCH backend environment: \"''
                                        @ Env c3 @ ''\"'')), c3)
            else
              (let c4 = (if KeyService c3 = [] then c3\<lparr>KeyService := KEY_URL (Env c3)\<rparr>
                         else c3\<lparr>KeyService := strings_TrimSuffix (KeyService c3) ''/mpack''\<rparr>);
                   c5 = (if VerifyService c4 = []
                         then c4\<lparr>VerifyService := VERIFY_URL (Env c4)\<rparr> else c4)
               in Returns (None, c5))))"

text \<open>
  \<open>Config.Load\<close>. \<open>loaded\<close> is what \<open>loadEnv\<close> or \<open>loadFile\<close> did: the struct
  as the decoder filled it and the error it returned.
\<close>

definition Load ::
  "Lib \<Rightarrow> (string \<Rightarrow> string \<Rightarrow> string) \<Rightarrow> string \<Rightarrow> Config \<times> error option
     \<Rightarrow> (error option \<times> Config) outcome" where
  "Load L filepath_Join Path loaded =
     (case loaded of
        (c, Some err) \<Rightarrow> Returns (Some err, c)
      | (c, None) \<Rightarrow>
          (case base64_DecodeString L (Secret c) of
             (decoded, Some err) \<Rightarrow>
               Returns (Some (Errorf (''unable to decode base64 encoded secret ('' @ Secret c
                                       @ ''): '' @ Error_text err)),
                        c\<lparr>SecretBytes := decoded\<rparr>)
           | (decoded, None) \<Rightarrow>
               (let c1 = c\<lparr>SecretBytes := decoded\<rparr> in
                case checkMandatory c1 of
                  Some err \<Rightarrow> Returns (Some err, c1)
                | None \<Rightarrow> setDefaultURLs (setDefaultTLS filepath_Join Path c1))))"

section \<open>Chained signing (section 4.6 of the specification)\<close>

text \<open>
  Modelled from the spec: the implementations of \<open>ContextManager\<close> (the file manager
  and the database manager) and their \<open>SendChainedUpp\<close> are not part of the sources.
  Section 4.2 gives their contract over one identity per uid, section 4.6 the body that
  runs under the lock of the uid: read the previous signature and the private key
  (2a), build the chained envelope, with 64 zero bytes as the previous signature when
  none is stored (2b), sign it (2c), dispatch it (2e), and commit the new signature
  only if the backend accepted the envelope (2d, 2f, 2g). A stored signature whose
  length is neither 0 nor 64 is corrupt. The signature of an envelope is its last 64
  bytes (sections 3 and 8). \<open>GetChainedUPP\<close> and \<open>SendUPP\<close> are the signer's own.
\<close>

type_synonym store = "uuid \<Rightarrow> Identity option"

definition httpSuccess :: "int \<Rightarrow> bool" where
  "httpSuccess code = (200 \<le> code \<and> code < 300)"

definition genesis :: bytes where
  "genesis = replicate SignatureLength 0"

definition upp_signature :: "bytes \<Rightarrow> bytes" where
  "upp_signature upp = drop (length upp - SignatureLength) upp"

text \<open>The signature stored for a uid: the chain tip.\<close>

definition tip :: "store \<Rightarrow> uuid \<Rightarrow> bytes" where
  "tip st uid = (case st uid of None \<Rightarrow> [] | Some ident \<Rightarrow> Signature ident)"

text \<open>
  A chained envelope that was built and dispatched: the previous signature and the
  payload that went into it, its signed bytes and the status of the dispatch.
\<close>

record Link =
  link_uid :: uuid
  link_prev :: bytes
  link_payload :: bytes
  link_upp :: bytes
  link_status :: int

definition chain ::
  "store \<Rightarrow> HTTPRequest \<Rightarrow> Signer \<Rightarrow> ((error + HTTPResponse) \<times> store) \<times> Link option" where
  "chain st msg s =
     (case st (ID msg) of
        None \<Rightarrow> ((Inl (Errorf ''NOT_FOUND''), st), None)
      | Some ident \<Rightarrow>
          if length (Signature ident) \<noteq> 0 \<and> length (Signature ident) \<noteq> SignatureLength
          then ((Inl (Errorf ''CORRUPT''), st), None)
          else
            (let prevSig = (if Signature ident = [] then genesis else Signature ident) in
             case GetChainedUPP s (ID msg) (Hash msg) (PrivateKey ident) prevSig of
               Inl err \<Rightarrow> ((Inl err, st), None)
             | Inr upp \<Rightarrow>
                 (let resp = SendUPP s msg upp;
                      link = \<lparr>link_uid = ID msg, link_prev = prevSig, link_payload = Hash msg,
                              link_upp = upp, link_status = StatusCode resp\<rparr>
                  in if httpSuccess (StatusCode resp)
                     then ((Inr resp, st(ID msg \<mapsto> ident\<lparr>Signature := upp_signature upp\<rparr>)),
                           Some link)
                     else ((Inr resp, st), Some link))))"

definition SendChainedUpp ::
  "store \<Rightarrow> HTTPRequest \<Rightarrow> Signer \<Rightarrow> (error + HTTPResponse) \<times> store" where
  "SendChainedUpp st msg s = fst (chain st msg s)"



definition accepted :: "Link \<Rightarrow> bool" where
  "accepted l = httpSuccess (link_status l)"

text \<open>What a dispatch that failed looks like at the client: an error or a status outside 2xx.\<close>

definition dispatch_failed :: "error + HTTPResponse \<Rightarrow> bool" where
  "dispatch_failed res = (case res of Inl err \<Rightarrow> True | Inr resp \<Rightarrow> \<not> httpSuccess (StatusCode resp))"



text \<open>
  Modelled from the spec: the store behind the interface (section 4.2): the getters
  report \<open>NOT_FOUND\<close> for an unknown uid, \<open>storeIdentity\<close> creates an identity and fails
  if the uid exists.
\<close>

definition storeManager :: "Lib \<Rightarrow> store ContextManager" where
  "storeManager L =
     \<lparr>cm_GetPrivateKey = (\<lambda>st uid. case st uid of None \<Rightarrow> Inl (Errorf ''NOT_FOUND'')
                                     | Some ident \<Rightarrow> Inr (PrivateKey ident)),
      cm_GetPublicKey = (\<lambda>st uid. case st uid of None \<Rightarrow> Inl (Errorf ''NOT_FOUND'')
                                    | Some ident \<Rightarrow> Inr (PublicKey ident)),
      cm_GetSignature = (\<lambda>st uid. case st uid of None \<Rightarrow> Inl (Errorf ''NOT_FOUND'')
                                    | Some ident \<Rightarrow> Inr (Signature ident)),
      cm_GetAuthToken = (\<lambda>st uid. case st uid of None \<Rightarrow> Inl (Errorf ''NOT_FOUND'')
                                    | Some ident \<Rightarrow> Inr (AuthToken ident)),
      cm_StoreIdentity = (\<lambda>st ident.
         case uuid_Parse L (Uid ident) of
           Inl err \<Rightarrow> (Some err, st)
         | Inr uid \<Rightarrow> if st uid \<noteq> None then (Some (Errorf ''identity exists''), st)
                      else (None, st(uid \<mapsto> ident))),
      cm_SendChainedUpp = SendChainedUpp\<rparr>"

section \<open>Concrete inputs\<close>

text \<open>
  Stand-ins for the library, a backend and a store, on which the theorems below are
  evaluated: the identity of scenario S1 of the specification with token \<open>ABC\<close>.
  The stand-ins answer as the libraries do on the inputs used here; the signing
  stand-in appends 64 bytes that depend on the payload.
\<close>

definition uid1 :: uuid where
  "uid1 = 0xd1b7eb09d1d84c63b6a51c861a6477fa"

definition uid1_string :: string where
  "uid1_string = ''d1b7eb09-d1d8-4c63-b6a5-1c861a6477fa''"

definition doc_a12 :: json where
  "doc_a12 = JObject [(''a'', JNumber ''1''), (''a'', JNumber ''2'')]"

definition doc_a21 :: json where
  "doc_a21 = JObject [(''a'', JNumber ''2''), (''a'', JNumber ''1'')]"

definition doc_ba :: json where
  "doc_ba = JObject [(''b'', JNumber ''2''), (''a'', JNumber ''1'')]"

definition doc_ab :: json where
  "doc_ab = JObject [(''a'', JNumber ''1''), (''b'', JNumber ''2'')]"

definition lib0 :: Lib where
  "lib0 =
     \<lparr>uuid_Parse = (\<lambda>s. if s = uid1_string then Inr uid1 else Inl (Errorf ''invalid UUID format'')),
      uuid_FromBytes = (\<lambda>b. if length b = 16 then Inr uid1 else Inl (Errorf ''invalid UUID'')),
      uuid_String = (\<lambda>u. if u = uid1 then uid1_string else ''00000000-0000-0000-0000-000000000000''),
      strings_ToLower = (\<lambda>s. s),
      hex_DecodeString = (\<lambda>s. if s = replicate 64 (CHR ''0'') then (replicate 32 0, None)
                               else ([], Some (Errorf ''encoding/hex: invalid byte''))),
      base64_DecodeString = (\<lambda>s.
         if s = ''MTIzNDU2Nzg5MDEyMzQ1Ng=='' then (bytes_of ''1234567890123456'', None)
         else if s = ''AAAAAAAAAAAAAAAAAAAAAAAAAAAAAAAAAAAAAAAAAAA='' then (replicate 32 0, None)
         else ([], Some (Errorf ''illegal base64 data''))),
      sha256_Sum256 = (\<lambda>b. take 32 (b @ replicate 32 0)),
      http_StatusText = (\<lambda>c. if c = 500 then ''Internal Server Error''
                               else if c = 504 then ''Gateway Timeout'' else []),
      json_Marshal = (\<lambda>r. sr_UPP r),
      json_syntax = (\<lambda>b. if b = bytes_of ''{\"a\":1,\"a\":2}'' then Inr doc_a12
                          else if b = bytes_of ''{\"a\":2,\"a\":1}'' then Inr doc_a21
                          else if b = bytes_of ''{\"b\":2,\"a\":1}'' then Inr doc_ba
                          else if b = bytes_of ''{\"a\":1,\"b\":2}'' then Inr doc_ab
                          else Inl (Errorf ''invalid character'')),
      json_number = (\<lambda>s. s),
      json_quote = (\<lambda>s. ''\"'' @ s @ ''\"''),
      json_Compact = (\<lambda>b. Inr (filter (\<lambda>w. w \<noteq> 0x0A \<and> w \<noteq> 0x20) b)),
      Protocol_Sign = (\<lambda>key upp. Inr (GetPrevSignature upp @ GetPayload upp
                                         @ take 64 (GetPayload upp @ replicate 64 7))),
      ubirch_Decode = (\<lambda>b. Inl (Errorf ''msgpack: invalid code''))\<rparr>"

definition backend_status :: "int \<Rightarrow> backend" where
  "backend_status code = (\<lambda>uid auth upp. Inr \<lparr>StatusCode = code, Header = [], Content = []\<rparr>)"

definition backend_timeout :: backend where
  "backend_timeout = (\<lambda>uid auth upp. Inl (NetError True ''context deadline exceeded''))"

definition backend_refused :: backend where
  "backend_refused = (\<lambda>uid auth upp. Inl (NetError False ''connection refused''))"

definition signer0 :: "backend \<Rightarrow> Signer" where
  "signer0 b = \<lparr>Protocol = lib0, Client = b\<rparr>"

definition ident1 :: "bytes \<Rightarrow> Identity" where
  "ident1 sig = \<lparr>Uid = uid1_string, PrivateKey = [1], PublicKey = [2], Signature = sig,
                  AuthToken = ''ABC''\<rparr>"

definition store1 :: "bytes \<Rightarrow> store" where
  "store1 sig = Map.empty(uid1 \<mapsto> ident1 sig)"

definition hash1 :: bytes where
  "hash1 = replicate 31 0 @ [1]"

definition hash2 :: bytes where
  "hash2 = replicate 31 0 @ [2]"

definition request1 :: "string \<Rightarrow> string \<Rightarrow> string \<Rightarrow> string \<Rightarrow> bytes \<Rightarrow> Request" where
  "request1 path op token ctype body =
     \<lparr>URLParams = [(UUIDKey, uid1_string), (OperationKey, op)],
      URLPath = path,
      ReqHeader = [(''Content-Type'', [ctype]), (''X-Auth-Token'', [token])],
      Body = Inr body\<rparr>"

definition request_text :: "string \<Rightarrow> bytes \<Rightarrow> Request" where
  "request_text cenc body =
     \<lparr>URLParams = [(UUIDKey, uid1_string)],
      URLPath = ''/d1b7eb09-d1d8-4c63-b6a5-1c861a6477fa/hash'',
      ReqHeader = [(''Content-Type'', [''text/plain'']), (''Content-Transfer-Encoding'', [cenc]),
                   (''X-Auth-Token'', [''ABC''])],
      Body = Inr body\<rparr>"

definition msg1 :: HTTPRequest where
  "msg1 = \<lparr>ID = uid1, Auth = ''ABC'', Hash = hash1\<rparr>"

definition msg2 :: HTTPRequest where
  "msg2 = \<lparr>ID = uid1, Auth = ''ABC'', Hash = hash2\<rparr>"

definition config1 :: "string \<Rightarrow> Config" where
  "config1 niomon =
     \<lparr>Devices = [(uid1_string, ''ABC'')], Secret = ''MTIzNDU2Nzg5MDEyMzQ1Ng=='', DSN = [],
      StaticUUID = False, Env = [], TLS = False, CertFile = [], KeyFile = [], Debug = False,
      KeyService = [], Niomon = niomon, VerifyService = [], SecretBytes = []\<rparr>"



definition json_header :: "(string \<times> string list) list" where
  "json_header = [(''Content-Type'', [JSONType])]"

section \<open>Shared facts\<close>

lemmas fixture_defs = lib0_def uid1_def uid1_string_def storeManager_def store1_def ident1_def

lemma StatusCode_ErrorResponse [simp]: "StatusCode (ErrorResponse L code m) = code"
  by (simp add: ErrorResponse_def)

lemma StatusCode_getSigningResponse [simp]:
  "StatusCode (getSigningResponse L code msg upp resp rid e) = code"
  by (simp add: getSigningResponse_def)

lemma unat_of_char: "unat (of_char c :: 8 word) = of_char c"
proof -
  have "(of_char c :: 8 word) = of_nat (of_char c)"
    by (simp add: of_nat_of_char)
  then show ?thesis
    by (simp add: unat_of_nat)
qed

lemma string_of_bytes_of [simp]: "string_of (bytes_of s) = s"
  by (induction s) (simp_all add: string_of_def bytes_of_def unat_of_char)

lemma CheckAuth_simps:
  "CheckAuth r tok = (if tok \<noteq> AuthToken_of (ReqHeader r) then Inl (Errorf ''invalid auth token'')
                      else Inr tok)"
  by (simp add: CheckAuth_def Let_def)

lemmas request_defs =
  request1_def GetUUID_def URLParam_def UUIDKey_def OperationKey_def GetAuthToken_def
  AuthToken_of_def Header_Get_def signer0_def

lemma bytes_of_eq [simp]: "bytes_of s = bytes_of t \<longleftrightarrow> s = t"
  by (metis string_of_bytes_of)

lemma length_hash [simp]: "length hash1 = 32" "length hash2 = 32"
  by (simp_all add: hash1_def hash2_def)

lemma hash_nonempty [simp]: "hash1 \<noteq> []" "hash2 \<noteq> []"
  by (simp_all add: hash1_def hash2_def)

lemma failed_not_success:
  "dispatch_failed (Client s (ID msg) (Auth msg) upp) \<Longrightarrow> \<not> httpSuccess (StatusCode (SendUPP s msg upp))"
  by (auto simp: dispatch_failed_def SendUPP_def httpSuccess_def StatusGatewayTimeout_def
        StatusInternalServerError_def Let_def split: sum.splits)

lemma chain_Some:
  assumes "snd (chain st msg s) = Some l"
  shows "\<exists>ident. st (ID msg) = Some ident
           \<and> link_uid l = ID msg
           \<and> link_prev l = (if tip st (ID msg) = [] then replicate 64 0 else tip st (ID msg))
           \<and> GetChainedUPP s (ID msg) (Hash msg) (PrivateKey ident) (link_prev l) = Inr (link_upp l)
           \<and> link_status l = StatusCode (SendUPP s msg (link_upp l))
           \<and> snd (fst (chain st msg s))
               = (if accepted l then st(ID msg \<mapsto> ident\<lparr>Signature := upp_signature (link_upp l)\<rparr>)
                  else st)"
  using assms
  by (auto simp: chain_def tip_def genesis_def SignatureLength_def accepted_def Let_def
        split: option.splits if_splits sum.splits)


section \<open>The chain of previous signatures (C1)\<close>













section \<open>A failed dispatch (C2)\<close>

text \<open>
  C2, on the chained signing of section 4.6. When a chained envelope was built for a
  request and its dispatch failed (the client returned an error, a timeout included,
  or the backend answered with a status outside 2xx), \<open>SendChainedUpp\<close> returns the
  response of \<open>SendUPP\<close> and the store it was given, and every envelope built next
  for the same uid carries the previous signature that the failed one carried.
\<close>

theorem failed_dispatch_keeps_tip:
  "snd (chain st msg s) = Some l
   \<and> dispatch_failed (Client s (ID msg) (Auth msg) (link_upp l))
   \<longrightarrow> SendChainedUpp st msg s = (Inr (SendUPP s msg (link_upp l)), st)
       \<and> (\<forall>msg' s' l'. ID msg' = ID msg \<and> snd (chain (snd (SendChainedUpp st msg s)) msg' s') = Some l'
             \<longrightarrow> link_prev l' = link_prev l)"
proof (intro impI)
  assume a: "snd (chain st msg s) = Some l
   \<and> dispatch_failed (Client s (ID msg) (Auth msg) (link_upp l))"
  then obtain ident where l: "st (ID msg) = Some ident"
      "link_prev l = (if tip st (ID msg) = [] then replicate 64 0 else tip st (ID msg))"
      "GetChainedUPP s (ID msg) (Hash msg) (PrivateKey ident) (link_prev l) = Inr (link_upp l)"
    using chain_Some [of st msg s l] by auto
  from a have nok: "\<not> httpSuccess (StatusCode (SendUPP s msg (link_upp l)))"
    by (simp add: failed_not_success)
  have len: "\<not> (length (Signature ident) \<noteq> 0 \<and> length (Signature ident) \<noteq> SignatureLength)"
    using a l(1) by (auto simp: chain_def Let_def split: if_splits)
  have prev: "(if Signature ident = [] then genesis else Signature ident) = link_prev l"
    using l(1,2) by (simp add: tip_def genesis_def SignatureLength_def)
  have 1: "SendChainedUpp st msg s = (Inr (SendUPP s msg (link_upp l)), st)"
    using l(1,3) nok len prev by (simp add: SendChainedUpp_def chain_def Let_def)
  have 2: "link_prev l' = link_prev l"
    if "ID msg' = ID msg \<and> snd (chain (snd (SendChainedUpp st msg s)) msg' s') = Some l'"
    for msg' s' l'
    using that chain_Some [of st msg' s' l'] l(2) by (auto simp: 1)
  from 1 2 show "SendChainedUpp st msg s = (Inr (SendUPP s msg (link_upp l)), st)
       \<and> (\<forall>msg' s' l'. ID msg' = ID msg \<and> snd (chain (snd (SendChainedUpp st msg s)) msg' s') = Some l'
             \<longrightarrow> link_prev l' = link_prev l)"
    by blast
qed

text \<open>
  Scenario S3: the backend answers the first chained request with 502. The store is
  unchanged, the caller receives 502, and the envelope of the next request carries 64
  zero bytes, as the failed one did.
\<close>

lemma chain_502:
  "chain (store1 []) msg1 (signer0 (backend_status 502))
     = ((Inr (SendUPP (signer0 (backend_status 502)) msg1
                (replicate 64 0 @ hash1 @ hash1 @ replicate 32 7)), store1 []),
        Some \<lparr>link_uid = uid1, link_prev = replicate 64 0, link_payload = hash1,
               link_upp = replicate 64 0 @ hash1 @ hash1 @ replicate 32 7, link_status = 502\<rparr>)"
  by (simp add: chain_def store1_def ident1_def msg1_def genesis_def
        SignatureLength_def GetChainedUPP_def SendUPP_def signer0_def lib0_def backend_status_def
        getSigningResponse_def httpSuccess_def Let_def)

lemma chain_next:
  "snd (chain (store1 []) msg2 (signer0 (backend_status 200)))
     = Some \<lparr>link_uid = uid1, link_prev = replicate 64 0, link_payload = hash2,
               link_upp = replicate 64 0 @ hash2 @ hash2 @ replicate 32 7, link_status = 200\<rparr>"
  by (simp add: chain_def store1_def ident1_def msg2_def genesis_def
        SignatureLength_def GetChainedUPP_def SendUPP_def signer0_def lib0_def backend_status_def
        getSigningResponse_def httpSuccess_def Let_def)

theorem failed_dispatch_keeps_tip_witness:
  "snd (SendChainedUpp (store1 []) msg1 (signer0 (backend_status 502))) = store1 []
   \<and> StatusCode (projr (fst (SendChainedUpp (store1 []) msg1 (signer0 (backend_status 502))))) = 502
   \<and> map_option link_prev
         (snd (chain (snd (SendChainedUpp (store1 []) msg1 (signer0 (backend_status 502)))) msg2
                 (signer0 (backend_status 200))))
       = Some (replicate 64 0)"
proof -
  let ?s = "signer0 (backend_status 502)"
  let ?l = "\<lparr>link_uid = uid1, link_prev = replicate 64 0, link_payload = hash1,
             link_upp = replicate 64 0 @ hash1 @ hash1 @ replicate 32 7, link_status = 502\<rparr>"
  have pre: "snd (chain (store1 []) msg1 ?s) = Some ?l
      \<and> dispatch_failed (Client ?s (ID msg1) (Auth msg1) (link_upp ?l))"
    by (simp add: chain_502) (simp add: dispatch_failed_def signer0_def backend_status_def httpSuccess_def)
  note th = failed_dispatch_keeps_tip [of "store1 []" msg1 ?s ?l, THEN mp, OF pre]
  from th have 1: "SendChainedUpp (store1 []) msg1 ?s
                     = (Inr (SendUPP ?s msg1 (link_upp ?l)), store1 [])"
    by (rule conjunct1)
  have st: "StatusCode (SendUPP ?s msg1 (link_upp ?l)) = 502"
    by (simp add: SendUPP_def signer0_def backend_status_def Let_def)
  have same: "ID msg2 = ID msg1"
    by (simp add: msg1_def msg2_def)
  from th [THEN conjunct2, rule_format, of msg2 "signer0 (backend_status 200)"] same chain_next
  have 2: "map_option link_prev
             (snd (chain (snd (SendChainedUpp (store1 []) msg1 ?s)) msg2 (signer0 (backend_status 200))))
           = Some (replicate 64 0)"
    by (simp add: 1)
  from 1 st 2 show ?thesis by simp
qed

section \<open>The signed update (C3)\<close>

lemma SigningService_frame: "snd (SigningService_HandleRequest s cm st r) = st"
  by (simp add: SigningService_HandleRequest_def split: sum.splits)

lemma hintLookup_simps:
  "hintLookup ''anchor'' = Some Binary" "hintLookup ''disable'' = Some Disable"
  "hintLookup ''enable'' = Some Enable" "hintLookup ''delete'' = Some Delete"
  by (simp_all add: hintLookup_def anchorHash_def disableHash_def enableHash_def deleteHash_def)

text \<open>
  C3. The signing handler never changes the state behind the \<open>ContextManager\<close>, so
  the stored signature of every uid is what it was. For an authorised request whose
  operation is \<open>anchor\<close>, \<open>disable\<close>, \<open>enable\<close> or \<open>delete\<close>, the one envelope the
  handler hands to \<open>Protocol.Sign\<close> is a \<open>SignedUPP\<close> of version \<open>Signed\<close> with the
  uid, the hash of the request and the hint of the operation (\<open>Binary\<close>, \<open>Disable\<close>,
  \<open>Enable\<close>, \<open>Delete\<close>); the reply is what \<open>SendUPP\<close> returns for the signed
  envelope, or an internal server error if signing failed.
\<close>

theorem signed_update:
  "snd (SigningService_HandleRequest s cm st r) = st
   \<and> (GetUUID (Protocol s) r = Inr uid \<and> GetAuthToken (Protocol s) cm st uid = Inr tok
      \<and> AuthToken_of (ReqHeader r) = tok \<and> URLParam r OperationKey = op
      \<and> (op, hint) \<in> {(''anchor'', Binary), (''disable'', Disable), (''enable'', Enable),
                         (''delete'', Delete)}
      \<and> GetHash (Protocol s) r = Inr hash \<and> cm_GetPrivateKey cm st uid = Inr key
      \<longrightarrow> fst (SigningService_HandleRequest s cm st r)
            = SendResponse
                (case Protocol_Sign (Protocol s) key (SignedUPP Signed uid hint hash) of
                   Inl err \<Rightarrow> ErrorResponse (Protocol s) 500 []
                 | Inr upp \<Rightarrow> SendUPP s \<lparr>ID = uid, Auth = tok, Hash = hash\<rparr> upp))"
proof (intro conjI impI)
  show "snd (SigningService_HandleRequest s cm st r) = st"
    by (rule SigningService_frame)
next
  assume a: "GetUUID (Protocol s) r = Inr uid \<and> GetAuthToken (Protocol s) cm st uid = Inr tok
      \<and> AuthToken_of (ReqHeader r) = tok \<and> URLParam r OperationKey = op
      \<and> (op, hint) \<in> {(''anchor'', Binary), (''disable'', Disable), (''enable'', Enable),
                         (''delete'', Delete)}
      \<and> GetHash (Protocol s) r = Inr hash \<and> cm_GetPrivateKey cm st uid = Inr key"
  then have op: "getOperation r = Inr op" and hint: "hintLookup op = Some hint"
    by (auto simp: getOperation_def hintLookup_simps anchorHash_def disableHash_def
          enableHash_def deleteHash_def)
  from a op hint show "fst (SigningService_HandleRequest s cm st r)
            = SendResponse
                (case Protocol_Sign (Protocol s) key (SignedUPP Signed uid hint hash) of
                   Inl err \<Rightarrow> ErrorResponse (Protocol s) 500 []
                 | Inr upp \<Rightarrow> SendUPP s \<lparr>ID = uid, Auth = tok, Hash = hash\<rparr> upp)"
    by (simp add: SigningService_HandleRequest_def CheckAuth_simps Sign_def getSignedUPP_def
          StatusInternalServerError_def split: sum.splits)
qed

text \<open>The theorem on an \<open>anchor\<close> request to the signing route, with a stored signature.\<close>

theorem signed_update_witness:
  "snd (SigningService_HandleRequest (signer0 (backend_status 200)) (storeManager lib0)
          (store1 genesis)
          (request1 ''/d1b7eb09-d1d8-4c63-b6a5-1c861a6477fa/anchor'' ''anchor'' ''ABC'' BinType
             (bytes_of ''data''))) = store1 genesis
   \<and> fst (SigningService_HandleRequest (signer0 (backend_status 200)) (storeManager lib0)
          (store1 genesis)
          (request1 ''/d1b7eb09-d1d8-4c63-b6a5-1c861a6477fa/anchor'' ''anchor'' ''ABC'' BinType
             (bytes_of ''data'')))
      = SendResponse (SendUPP (signer0 (backend_status 200))
          \<lparr>ID = uid1, Auth = ''ABC'', Hash = sha256_Sum256 lib0 (bytes_of ''data'')\<rparr>
          (sha256_Sum256 lib0 (bytes_of ''data'')
           @ take 64 (sha256_Sum256 lib0 (bytes_of ''data'') @ replicate 64 7)))"
proof -
  let ?r = "request1 ''/d1b7eb09-d1d8-4c63-b6a5-1c861a6477fa/anchor'' ''anchor'' ''ABC'' BinType
             (bytes_of ''data'')"
  let ?s = "signer0 (backend_status 200)"
  let ?h = "sha256_Sum256 lib0 (bytes_of ''data'')"
  have hash: "GetHash (Protocol ?s) ?r = Inr ?h"
    by (simp add: GetHash_def readBody_def isHashRequest_def HashEndpoint_def suffix_def
          request1_def signer0_def getHashFromDataRequest_def ContentType_def Header_Get_def
          BinType_def JSONType_def lib0_def)
  have pre: "GetUUID (Protocol ?s) ?r = Inr uid1
      \<and> GetAuthToken (Protocol ?s) (storeManager lib0) (store1 genesis) uid1 = Inr ''ABC''
      \<and> AuthToken_of (ReqHeader ?r) = ''ABC'' \<and> URLParam ?r OperationKey = ''anchor''
      \<and> (''anchor'', Binary) \<in> {(''anchor'', Binary), (''disable'', Disable),
                                   (''enable'', Enable), (''delete'', Delete)}
      \<and> GetHash (Protocol ?s) ?r = Inr ?h
      \<and> cm_GetPrivateKey (storeManager lib0) (store1 genesis) uid1 = Inr [1]"
    using hash by (simp add: request_defs fixture_defs)
  have sign: "Protocol_Sign (Protocol ?s) [1] (SignedUPP Signed uid1 Binary ?h)
                = Inr (?h @ take 64 (?h @ replicate 64 7))"
    by (simp add: signer0_def lib0_def)
  show ?thesis
    using signed_update [of ?s "storeManager lib0" "store1 genesis" ?r, THEN conjunct1]
          signed_update [of ?s "storeManager lib0" "store1 genesis" ?r uid1 "''ABC''" "''anchor''"
            Binary ?h "[1]", THEN conjunct2, THEN mp, OF pre]
    by (simp add: sign)
qed

section \<open>The status of a dispatch (C4)\<close>

text \<open>
  C4, as the code has it. The response that \<open>SendUPP\<close> returns, which the handler
  forwards to the caller, has status 504 when the call to the backend timed out,
  status 500 when the call failed in another way (a refused connection is such a
  failure), and the status of the backend's response whenever the backend answered,
  whatever that status is.
\<close>

theorem SendUPP_status:
  "(Client s (ID msg) (Auth msg) upp = Inl err \<and> os_IsTimeout err
      \<longrightarrow> StatusCode (SendUPP s msg upp) = 504)
   \<and> (Client s (ID msg) (Auth msg) upp = Inl err \<and> \<not> os_IsTimeout err
      \<longrightarrow> StatusCode (SendUPP s msg upp) = 500)
   \<and> (Client s (ID msg) (Auth msg) upp = Inr resp
      \<longrightarrow> StatusCode (SendUPP s msg upp) = StatusCode resp)"
  by (simp add: SendUPP_def StatusGatewayTimeout_def StatusInternalServerError_def Let_def)

text \<open>The theorem at a timeout, a refused connection and a backend that answers 404.\<close>

theorem SendUPP_status_witness:
  "StatusCode (SendUPP (signer0 backend_timeout) msg1 [1, 2, 3]) = 504
   \<and> StatusCode (SendUPP (signer0 backend_refused) msg1 [1, 2, 3]) = 500
   \<and> StatusCode (SendUPP (signer0 (backend_status 404)) msg1 [1, 2, 3]) = 404"
  using SendUPP_status [of "signer0 backend_timeout" msg1 "[1, 2, 3]"
          "NetError True ''context deadline exceeded''"]
        SendUPP_status [of "signer0 backend_refused" msg1 "[1, 2, 3]"
          "NetError False ''connection refused''"]
        SendUPP_status [of "signer0 (backend_status 404)" msg1 "[1, 2, 3]" _
          "\<lparr>StatusCode = 404, Header = [], Content = []\<rparr>"]
  by (simp add: signer0_def backend_timeout_def backend_refused_def backend_status_def)

text \<open>
  Against C4 as the specification states it: an unavailable backend does not give
  502. A refused connection gives 500, and a backend that answers 503 gives 503.
\<close>

theorem unavailable_backend_not_502:
  "StatusCode (SendUPP (signer0 backend_refused) msg1 [1, 2, 3]) = 500
   \<and> StatusCode (SendUPP (signer0 (backend_status 503)) msg1 [1, 2, 3]) = 503"
  by (simp add: SendUPP_def signer0_def backend_refused_def backend_status_def
        StatusInternalServerError_def Let_def)

section \<open>Stored signatures (C5)\<close>

lemma checkSignatureLen_None: "checkSignatureLen sig = None \<longleftrightarrow> length sig = 64"
  by (simp add: checkSignatureLen_def SignatureLength_def)

lemma checkSignatureLen_Some: "checkSignatureLen sig = Some err \<Longrightarrow> length sig \<noteq> 64"
  by (simp add: checkSignatureLen_def SignatureLength_def split: if_splits)

text \<open>
  C5, as the code has it. \<open>GetSignature\<close> returns the signature that the store holds
  exactly when its length is 64: every other length, 0 included, is an error.
  \<open>StoreIdentity\<close> hands an identity to the store when its token and keys are not
  empty and its signature has 64 bytes, and only then: an identity with an empty
  token, a signature of another length (the empty one included), an empty private key
  or an empty public key is refused with an error and the store is left as it was.
\<close>

theorem stored_signature_length:
  "(GetSignature cm st uid = Inr sig \<longleftrightarrow> cm_GetSignature cm st uid = Inr sig \<and> length sig = 64)
   \<and> (AuthToken ident \<noteq> [] \<and> length (Signature ident) = 64 \<and> PrivateKey ident \<noteq> []
        \<and> PublicKey ident \<noteq> []
       \<longrightarrow> StoreIdentity cm st ident = cm_StoreIdentity cm st ident)
   \<and> (AuthToken ident = [] \<or> length (Signature ident) \<noteq> 64 \<or> PrivateKey ident = []
        \<or> PublicKey ident = []
       \<longrightarrow> (\<exists>err. StoreIdentity cm st ident = (Some err, st)))"
proof (intro conjI impI)
  show "GetSignature cm st uid = Inr sig \<longleftrightarrow> cm_GetSignature cm st uid = Inr sig \<and> length sig = 64"
    by (auto simp: GetSignature_def checkSignatureLen_None split: sum.splits option.splits
          dest: checkSignatureLen_Some)
next
  assume "AuthToken ident \<noteq> [] \<and> length (Signature ident) = 64 \<and> PrivateKey ident \<noteq> []
        \<and> PublicKey ident \<noteq> []"
  then show "StoreIdentity cm st ident = cm_StoreIdentity cm st ident"
    by (simp add: StoreIdentity_def checkSignatureLen_def SignatureLength_def)
next
  assume bad: "AuthToken ident = [] \<or> length (Signature ident) \<noteq> 64 \<or> PrivateKey ident = []
        \<or> PublicKey ident = []"
  show "\<exists>err. StoreIdentity cm st ident = (Some err, st)"
  proof (cases "AuthToken ident = []")
    case True
    then show ?thesis by (simp add: StoreIdentity_def)
  next
    case token: False
    show ?thesis
    proof (cases "checkSignatureLen (Signature ident)")
      case (Some err)
      with token show ?thesis by (simp add: StoreIdentity_def)
    next
      case None
      then have "length (Signature ident) = 64"
        by (simp add: checkSignatureLen_None)
      with bad token have "PrivateKey ident = [] \<or> PublicKey ident = []"
        by simp
      with token None show ?thesis by (auto simp: StoreIdentity_def)
    qed
  qed
qed

text \<open>
  The theorem at the identity of scenario S1: a signature of 64 zero bytes is read back
  and stored; the empty signature, an empty token and an empty private key are
  refused.
\<close>

theorem stored_signature_length_witness:
  "GetSignature (storeManager lib0) (store1 (replicate 64 0)) uid1 = Inr (replicate 64 0)
   \<and> StoreIdentity (storeManager lib0) Map.empty (ident1 (replicate 64 0))
       = (None, store1 (replicate 64 0))
   \<and> (\<exists>err. StoreIdentity (storeManager lib0) Map.empty (ident1 []) = (Some err, Map.empty))
   \<and> (\<exists>err. StoreIdentity (storeManager lib0) Map.empty
               ((ident1 (replicate 64 0))\<lparr>AuthToken := []\<rparr>) = (Some err, Map.empty))
   \<and> (\<exists>err. StoreIdentity (storeManager lib0) Map.empty
               ((ident1 (replicate 64 0))\<lparr>PrivateKey := []\<rparr>) = (Some err, Map.empty))"
  using stored_signature_length [of "storeManager lib0" "store1 (replicate 64 0)" uid1
          "replicate 64 0" "ident1 (replicate 64 0)"]
        stored_signature_length [of "storeManager lib0" Map.empty uid1 "[]" "ident1 (replicate 64 0)"]
        stored_signature_length [of "storeManager lib0" Map.empty uid1 "[]" "ident1 []"]
        stored_signature_length [of "storeManager lib0" Map.empty uid1 "[]"
          "(ident1 (replicate 64 0))\<lparr>AuthToken := []\<rparr>"]
        stored_signature_length [of "storeManager lib0" Map.empty uid1 "[]"
          "(ident1 (replicate 64 0))\<lparr>PrivateKey := []\<rparr>"]
  by (simp add: fixture_defs)

text \<open>
  Against C5 as the specification states it: an empty stored signature is not
  accepted when it is read back, and storing a new identity with an empty signature
  fails.
\<close>

theorem empty_signature_rejected:
  "GetSignature (storeManager lib0) (store1 []) uid1
     = Inl (Errorf ''invalid signature length: expected 64, got 0'')
   \<and> StoreIdentity (storeManager lib0) Map.empty (ident1 [])
     = (Some (Errorf ''d1b7eb09-d1d8-4c63-b6a5-1c861a6477fa: invalid signature length: expected 64, got 0''),
        Map.empty)"
  by (simp add: fixture_defs GetSignature_def StoreIdentity_def checkSignatureLen_def
        SignatureLength_def decimal.simps)

section \<open>The order of the keys of a JSON body (C6)\<close>

lemma update_fresh: "k \<notin> fst ` set al \<Longrightarrow> AList.update k v al = al @ [(k, v)]"
  by (induction al) auto

lemma foldl_update_distinct:
  "distinct (map fst (acc @ ms))
   \<Longrightarrow> foldl (\<lambda>m (k, v). AList.update k v m) acc ms = acc @ ms"
proof (induction ms arbitrary: acc)
  case Nil
  then show ?case by simp
next
  case (Cons m ms)
  obtain k v where m: "m = (k, v)" by (cases m)
  from Cons.prems m have fresh: "k \<notin> fst ` set acc"
    by auto
  from Cons.prems m have "distinct (map fst ((acc @ [(k, v)]) @ ms))"
    by auto
  then have "foldl (\<lambda>m (k, v). AList.update k v m) (acc @ [(k, v)]) ms = (acc @ [(k, v)]) @ ms"
    by (rule Cons.IH)
  then show ?case
    using m fresh by (simp add: update_fresh)
qed

lemma fst_comp_member [simp]: "fst \<circ> (\<lambda>(k, v). (k, f v)) = fst"
  by (rule ext) (simp add: split_beta)

lemma map_fst_members: "map fst (map (\<lambda>(k, v). (k, f v)) ms) = map fst ms"
  by simp

lemma member_comp:
  "(\<lambda>(k, v). (k, sortKeys v)) \<circ> (\<lambda>(k, v). (k, Unmarshal_value L v))
     = (\<lambda>(k, v). (k, canon L v))"
  by (rule ext) (simp add: split_beta canon_def)

lemma canon_object:
  assumes "distinct (map fst ms)"
  shows "canon L (JObject ms) = GMap (sort_key fst (map (\<lambda>(k, v). (k, canon L v)) ms))"
proof -
  let ?us = "map (\<lambda>(k, v). (k, Unmarshal_value L v)) ms"
  from assms have "distinct (map fst ([] @ ?us))"
    by simp
  then have "foldl (\<lambda>m (k, v). AList.update k v m) [] ?us = [] @ ?us"
    by (rule foldl_update_distinct)
  then have "canon L (JObject ms) = GMap (sort_key fst (map (\<lambda>(k, v). (k, sortKeys v)) ?us))"
    by (simp add: canon_def)
  also have "map (\<lambda>(k, v). (k, sortKeys v)) ?us = map (\<lambda>(k, v). (k, canon L v)) ms"
    by (simp only: map_map member_comp)
  finally show ?thesis .
qed

lemma canon_array: "canon L (JArray xs) = GSlice (map (canon L) xs)"
  by (simp add: canon_def comp_def)

lemma sort_members_perm:
  assumes "mset ms' = mset ms" and "distinct (map fst ms)"
  shows "sort_key fst (map (\<lambda>(k, v). (k, f v)) ms') = sort_key fst (map (\<lambda>(k, v). (k, f v)) ms)"
proof (rule sort_key_eq_sort_key)
  show "mset (map (\<lambda>(k, v). (k, f v)) ms') = mset (map (\<lambda>(k, v). (k, f v)) ms)"
    using assms(1) by (metis mset_map)
  have "mset (map fst ms') = mset (map fst ms)"
    using assms(1) by (metis mset_map)
  then have "distinct (map fst ms')"
    using assms(2) by (metis mset_eq_imp_distinct_iff)
  then have "distinct (map fst (map (\<lambda>(k, v). (k, f v)) ms'))"
    by (simp add: map_fst_members)
  then show "inj_on fst (set (map (\<lambda>(k, v). (k, f v)) ms'))"
    by (metis distinct_map)
qed



lemma perm_distinct_keys:
  assumes "mset ms' = mset ms" and "distinct (map fst ms)"
  shows "distinct (map fst ms')"
proof -
  have "mset (map fst ms') = mset (map fst ms)"
    using assms(1) by simp
  then show ?thesis
    using assms(2) mset_eq_imp_distinct_iff by blast
qed

lemma key_perm_canon:
  "key_perm a b \<Longrightarrow> distinct_keys a \<Longrightarrow> distinct_keys b \<and> canon L a = canon L b"
proof (induction rule: key_perm.induct)
  case (same d)
  then show ?case by simp
next
  case (members ms' ms)
  then have d: "distinct (map fst ms)" and vs: "list_all (\<lambda>(k, v). distinct_keys v) ms"
    by simp_all
  have d': "distinct (map fst ms')"
    using members.hyps d by (rule perm_distinct_keys)
  have "set ms' = set ms"
    using members.hyps by (rule mset_eq_setD)
  with vs have vs': "list_all (\<lambda>(k, v). distinct_keys v) ms'"
    by (simp add: list_all_iff)
  have "canon L (JObject ms) = canon L (JObject ms')"
    using sort_members_perm [OF members.hyps d, of "canon L"]
    by (simp only: canon_object [OF d] canon_object [OF d'])
  with d' vs' show ?case by simp
next
  case (step a b c)
  then show ?case by simp
next
  case (element a b xs ys)
  then have "distinct_keys b" and "canon L a = canon L b"
    by simp_all
  with element.prems show ?case
    by (simp add: canon_array)
next
  case (member a b ms k ns)
  then have b: "distinct_keys b" and c: "canon L a = canon L b"
    by simp_all
  from member.prems have d: "distinct (map fst (ms @ (k, a) # ns))"
    by simp
  then have d': "distinct (map fst (ms @ (k, b) # ns))"
    by simp
  have "canon L (JObject (ms @ (k, a) # ns)) = canon L (JObject (ms @ (k, b) # ns))"
    by (simp only: canon_object [OF d] canon_object [OF d']) (simp add: c)
  with member.prems b show ?case by simp
qed


text \<open>
  C6, as the code has it. Let two bodies be read as JSON texts that differ only in the
  order of the members of their objects, at any depth, and let no object of the first
  have a key twice. Then \<open>GetSortedCompactJSON\<close> returns the same for both, and for
  the content type \<open>application/json\<close> so does \<open>getHashFromDataRequest\<close>: the two
  requests carry the same hash.
\<close>

theorem canonical_json_key_order:
  "json_syntax L body1 = Inr d1 \<and> json_syntax L body2 = Inr d2 \<and> key_perm d1 d2
   \<and> distinct_keys d1
   \<longrightarrow> GetSortedCompactJSON L body1 = GetSortedCompactJSON L body2
       \<and> (ContentType L header = JSONType
            \<longrightarrow> getHashFromDataRequest L header body1 = getHashFromDataRequest L header body2)"
proof (intro impI)
  assume a: "json_syntax L body1 = Inr d1 \<and> json_syntax L body2 = Inr d2 \<and> key_perm d1 d2
   \<and> distinct_keys d1"
  then have "canon L d1 = canon L d2"
    using key_perm_canon [of d1 d2 L] by simp
  then have "jsonMarshal L (Unmarshal_value L d1) = jsonMarshal L (Unmarshal_value L d2)"
    by (simp add: jsonMarshal_def canon_def)
  with a have eq: "GetSortedCompactJSON L body1 = GetSortedCompactJSON L body2"
    by (simp add: GetSortedCompactJSON_def)
  then show "GetSortedCompactJSON L body1 = GetSortedCompactJSON L body2
       \<and> (ContentType L header = JSONType
            \<longrightarrow> getHashFromDataRequest L header body1 = getHashFromDataRequest L header body2)"
    by (simp add: getHashFromDataRequest_def)
qed

text \<open>Scenario S6: the bodies \<open>{"b":2,"a":1}\<close> and \<open>{"a":1,"b":2}\<close>.\<close>

lemma canon_ba:
  "GetSortedCompactJSON lib0 (bytes_of ''{\"b\":2,\"a\":1}'') = Inr (bytes_of ''{\"a\":1,\"b\":2}'')"
  by (simp add: GetSortedCompactJSON_def lib0_def doc_ba_def jsonMarshal_def list_le_def bytes_of_def)

lemma canon_a12:
  "GetSortedCompactJSON lib0 (bytes_of ''{\"a\":1,\"a\":2}'') = Inr (bytes_of ''{\"a\":2}'')"
  by (simp add: GetSortedCompactJSON_def lib0_def doc_a12_def jsonMarshal_def list_le_def bytes_of_def)

lemma canon_a21:
  "GetSortedCompactJSON lib0 (bytes_of ''{\"a\":2,\"a\":1}'') = Inr (bytes_of ''{\"a\":1}'')"
  by (simp add: GetSortedCompactJSON_def lib0_def doc_a21_def jsonMarshal_def list_le_def bytes_of_def)


theorem canonical_json_key_order_witness:
  "GetSortedCompactJSON lib0 (bytes_of ''{\"b\":2,\"a\":1}'')
     = GetSortedCompactJSON lib0 (bytes_of ''{\"a\":1,\"b\":2}'')
   \<and> getHashFromDataRequest lib0 json_header (bytes_of ''{\"b\":2,\"a\":1}'')
     = getHashFromDataRequest lib0 json_header (bytes_of ''{\"a\":1,\"b\":2}'')"
proof -
  have perm: "key_perm doc_ba doc_ab"
    unfolding doc_ba_def doc_ab_def by (rule key_perm.members) simp
  have pre: "json_syntax lib0 (bytes_of ''{\"b\":2,\"a\":1}'') = Inr doc_ba
      \<and> json_syntax lib0 (bytes_of ''{\"a\":1,\"b\":2}'') = Inr doc_ab
      \<and> key_perm doc_ba doc_ab \<and> distinct_keys doc_ba"
    using perm by (simp add: lib0_def doc_ba_def)
  have ct: "ContentType lib0 json_header = JSONType"
    by (simp add: ContentType_def Header_Get_def json_header_def lib0_def)
  show ?thesis
    using canonical_json_key_order [of lib0 _ doc_ba _ doc_ab json_header, THEN mp, OF pre] ct
    by simp
qed

text \<open>
  Against C6 as the specification states it: the texts \<open>{"a":1,"a":2}\<close> and
  \<open>{"a":2,"a":1}\<close> differ only in the order of their members, but the decoder keeps
  the last value of a key, so their sorted compact forms are \<open>{"a":2}\<close> and
  \<open>{"a":1}\<close> and the hashes differ.
\<close>

theorem duplicate_keys_order_matters:
  "key_perm doc_a12 doc_a21
   \<and> json_syntax lib0 (bytes_of ''{\"a\":1,\"a\":2}'') = Inr doc_a12
   \<and> json_syntax lib0 (bytes_of ''{\"a\":2,\"a\":1}'') = Inr doc_a21
   \<and> GetSortedCompactJSON lib0 (bytes_of ''{\"a\":1,\"a\":2}'') = Inr (bytes_of ''{\"a\":2}'')
   \<and> GetSortedCompactJSON lib0 (bytes_of ''{\"a\":2,\"a\":1}'') = Inr (bytes_of ''{\"a\":1}'')
   \<and> getHashFromDataRequest lib0 json_header (bytes_of ''{\"a\":1,\"a\":2}'')
       \<noteq> getHashFromDataRequest lib0 json_header (bytes_of ''{\"a\":2,\"a\":1}'')"
proof -
  have perm: "key_perm doc_a12 doc_a21"
    unfolding doc_a12_def doc_a21_def by (rule key_perm.members) simp
  have ct: "ContentType lib0 json_header = JSONType"
    by (simp add: ContentType_def Header_Get_def json_header_def lib0_def)
  have sha: "sha256_Sum256 lib0 (bytes_of ''{\"a\":2}'') \<noteq> sha256_Sum256 lib0 (bytes_of ''{\"a\":1}'')"
    by (simp add: lib0_def bytes_of_def)
  have syn: "json_syntax lib0 (bytes_of ''{\"a\":1,\"a\":2}'') = Inr doc_a12"
      "json_syntax lib0 (bytes_of ''{\"a\":2,\"a\":1}'') = Inr doc_a21"
    by (simp_all add: lib0_def)
  show ?thesis
    using perm sha syn by (simp add: getHashFromDataRequest_def ct canon_a12 canon_a21)
qed

section \<open>The hash of a hash request (C7)\<close>

lemma checkHashLen_Inr: "checkHashLen d = Inr h \<longleftrightarrow> length d = 32 \<and> h = d"
  by (auto simp: checkHashLen_def HashLen_def)

lemma suffix_hash: "suffix ''/hash'' p \<Longrightarrow> suffix HashEndpoint p"
  by (auto simp: suffix_def HashEndpoint_def)

lemma Bin_not_Text: "BinType \<noteq> TextType"
  by (simp add: BinType_def TextType_def)

lemma getHashFromHashRequest_Inr:
  "getHashFromHashRequest L header body = Inr h \<longleftrightarrow>
     (ContentType L header = BinType \<and> length body = 32 \<and> h = body)
     \<or> (ContentType L header = TextType
        \<and> (if ContentEncoding L header = HexEncoding then hex_DecodeString L (string_of body)
            else base64_DecodeString L (string_of body)) = (h, None)
        \<and> length h = 32)"
  using Bin_not_Text
  by (auto simp: getHashFromHashRequest_def checkHashLen_Inr split: prod.splits option.splits)

lemma Header_Get_first:
  "Header_Get h k = (case map_of h k of Some (v # vs) \<Rightarrow> v | _ \<Rightarrow> [])"
  by (simp add: Header_Get_def split: option.splits list.splits)

text \<open>
  C7. Take a request whose body could be read and whose URL path ends with \<open>/hash\<close>;
  let \<open>ctype\<close> and \<open>cenc\<close> be the first values of its headers \<open>Content-Type\<close> and
  \<open>Content-Transfer-Encoding\<close>, in lower case (empty when the header is absent).
  \<open>GetHash\<close> returns a hash \<open>h\<close> exactly in three cases: \<open>ctype\<close> is
  \<open>application/octet-stream\<close>, the body has 32 bytes and \<open>h\<close> is the body; \<open>ctype\<close>
  is \<open>text/plain\<close>, \<open>cenc\<close> is \<open>hex\<close>, and the body decodes as hex without error to
  the 32 bytes \<open>h\<close>; or \<open>ctype\<close> is \<open>text/plain\<close>, \<open>cenc\<close> is not \<open>hex\<close>, and the
  body decodes as base64 without error to the 32 bytes \<open>h\<close>. In every other case
  \<open>GetHash\<close> returns an error, and the chaining and the signing handler answer an
  error of \<open>GetHash\<close> with status 400 and leave the store as it was.
\<close>

theorem hash_request:
  "Body r = Inr body \<and> suffix ''/hash'' (URLPath r)
   \<and> hdr = (\<lambda>k. case map_of (ReqHeader r) k of Some (v # vs) \<Rightarrow> v | _ \<Rightarrow> [])
   \<and> ctype = strings_ToLower (Protocol s) (hdr ''Content-Type'')
   \<and> cenc = strings_ToLower (Protocol s) (hdr ''Content-Transfer-Encoding'')
   \<longrightarrow>
     (GetHash (Protocol s) r = Inr h \<longleftrightarrow>
        (ctype = ''application/octet-stream'' \<and> length body = 32 \<and> h = body)
        \<or> (ctype = ''text/plain'' \<and> cenc = ''hex''
           \<and> hex_DecodeString (Protocol s) (string_of body) = (h, None) \<and> length h = 32)
        \<or> (ctype = ''text/plain'' \<and> cenc \<noteq> ''hex''
           \<and> base64_DecodeString (Protocol s) (string_of body) = (h, None) \<and> length h = 32))
     \<and> (GetUUID (Protocol s) r = Inr uid \<and> GetAuthToken (Protocol s) cm st uid = Inr tok
        \<and> hdr ''X-Auth-Token'' = tok \<and> GetHash (Protocol s) r = Inl err
        \<longrightarrow> ChainingService_HandleRequest s cm st r = (http_Error (Error_text err) 400, st)
            \<and> (\<forall>op. getOperation r = Inr op
                  \<longrightarrow> SigningService_HandleRequest s cm st r
                        = (http_Error (Error_text err) 400, st)))"
proof (intro impI)
  assume a: "Body r = Inr body \<and> suffix ''/hash'' (URLPath r)
   \<and> hdr = (\<lambda>k. case map_of (ReqHeader r) k of Some (v # vs) \<Rightarrow> v | _ \<Rightarrow> [])
   \<and> ctype = strings_ToLower (Protocol s) (hdr ''Content-Type'')
   \<and> cenc = strings_ToLower (Protocol s) (hdr ''Content-Transfer-Encoding'')"
  then have hdr: "hdr = Header_Get (ReqHeader r)"
    by (simp add: Header_Get_first fun_eq_iff)
  with a have ct: "ContentType (Protocol s) (ReqHeader r) = ctype"
      and ce: "ContentEncoding (Protocol s) (ReqHeader r) = cenc"
    by (simp_all add: ContentType_def ContentEncoding_def)
  from a have "GetHash (Protocol s) r = getHashFromHashRequest (Protocol s) (ReqHeader r) body"
    by (simp add: GetHash_def readBody_def isHashRequest_def suffix_hash)
  then have 1: "GetHash (Protocol s) r = Inr h \<longleftrightarrow>
        (ctype = ''application/octet-stream'' \<and> length body = 32 \<and> h = body)
        \<or> (ctype = ''text/plain'' \<and> cenc = ''hex''
           \<and> hex_DecodeString (Protocol s) (string_of body) = (h, None) \<and> length h = 32)
        \<or> (ctype = ''text/plain'' \<and> cenc \<noteq> ''hex''
           \<and> base64_DecodeString (Protocol s) (string_of body) = (h, None) \<and> length h = 32)"
    using ct ce
    by (auto simp: getHashFromHashRequest_Inr BinType_def TextType_def HexEncoding_def)
  have 2: "ChainingService_HandleRequest s cm st r = (http_Error (Error_text err) 400, st)
            \<and> (\<forall>op. getOperation r = Inr op
                  \<longrightarrow> SigningService_HandleRequest s cm st r
                        = (http_Error (Error_text err) 400, st))"
    if b: "GetUUID (Protocol s) r = Inr uid \<and> GetAuthToken (Protocol s) cm st uid = Inr tok
        \<and> hdr ''X-Auth-Token'' = tok \<and> GetHash (Protocol s) r = Inl err"
  proof -
    from b hdr have "AuthToken_of (ReqHeader r) = tok"
      by (simp add: AuthToken_of_def)
    with b show ?thesis
      by (simp add: ChainingService_HandleRequest_def SigningService_HandleRequest_def
            CheckAuth_simps StatusBadRequest_def)
  qed
  from 1 2 show "(GetHash (Protocol s) r = Inr h \<longleftrightarrow>
        (ctype = ''application/octet-stream'' \<and> length body = 32 \<and> h = body)
        \<or> (ctype = ''text/plain'' \<and> cenc = ''hex''
           \<and> hex_DecodeString (Protocol s) (string_of body) = (h, None) \<and> length h = 32)
        \<or> (ctype = ''text/plain'' \<and> cenc \<noteq> ''hex''
           \<and> base64_DecodeString (Protocol s) (string_of body) = (h, None) \<and> length h = 32))
     \<and> (GetUUID (Protocol s) r = Inr uid \<and> GetAuthToken (Protocol s) cm st uid = Inr tok
        \<and> hdr ''X-Auth-Token'' = tok \<and> GetHash (Protocol s) r = Inl err
        \<longrightarrow> ChainingService_HandleRequest s cm st r = (http_Error (Error_text err) 400, st)
            \<and> (\<forall>op. getOperation r = Inr op
                  \<longrightarrow> SigningService_HandleRequest s cm st r
                        = (http_Error (Error_text err) 400, st)))"
    by blast
qed

text \<open>
  The theorem on requests of the identity of scenario S1: a raw hash of 32 bytes; a
  hex text of 32 zero bytes under \<open>Content-Transfer-Encoding: hex\<close>; a base64 text of
  32 zero bytes under \<open>Content-Transfer-Encoding: base64\<close>; the same base64 text
  under \<open>hex\<close>, which is answered with 400; and a raw body of 3 bytes, which is
  answered with 400.
\<close>

lemma GetHash_short:
  "GetHash lib0 (request1 ''/d1b7eb09-d1d8-4c63-b6a5-1c861a6477fa/hash'' op tok BinType [1, 2, 3])
     = Inl (Errorf ''invalid SHA256 hash size: expected 32 bytes, got 3 bytes'')"
  by (simp add: GetHash_def readBody_def isHashRequest_def HashEndpoint_def suffix_def
        request1_def getHashFromHashRequest_def ContentType_def Header_Get_def lib0_def
        BinType_def TextType_def checkHashLen_def HashLen_def decimal.simps)

lemma base64_text_not_hex:
  "''AAAAAAAAAAAAAAAAAAAAAAAAAAAAAAAAAAAAAAAAAAA='' \<noteq> replicate 64 (CHR ''0'')"
  by (auto dest: arg_cong [where f = length])

lemma GetHash_not_hex:
  "GetHash lib0 (request_text ''hex'' (bytes_of ''AAAAAAAAAAAAAAAAAAAAAAAAAAAAAAAAAAAAAAAAAAA=''))
     = Inl (Errorf ''decoding hex encoded hash failed: encoding/hex: invalid byte ()'')"
  by (simp add: GetHash_def readBody_def isHashRequest_def HashEndpoint_def suffix_def
        request_text_def getHashFromHashRequest_def ContentType_def ContentEncoding_def
        Header_Get_def lib0_def TextType_def HexEncoding_def base64_text_not_hex
        string_of_def [of "[]"])

theorem hash_request_witness:
  "GetHash lib0 (request1 ''/d1b7eb09-d1d8-4c63-b6a5-1c861a6477fa/hash'' [] ''ABC''
        ''application/octet-stream'' hash1) = Inr hash1
   \<and> GetHash lib0 (request_text ''hex'' (bytes_of (replicate 64 (CHR ''0'')))) = Inr (replicate 32 0)
   \<and> GetHash lib0 (request_text ''base64'' (bytes_of ''AAAAAAAAAAAAAAAAAAAAAAAAAAAAAAAAAAAAAAAAAAA=''))
       = Inr (replicate 32 0)
   \<and> ChainingService_HandleRequest (signer0 (backend_status 200)) (storeManager lib0) (store1 [])
        (request_text ''hex'' (bytes_of ''AAAAAAAAAAAAAAAAAAAAAAAAAAAAAAAAAAAAAAAAAAA=''))
     = (http_Error ''decoding hex encoded hash failed: encoding/hex: invalid byte ()'' 400, store1 [])
   \<and> ChainingService_HandleRequest (signer0 (backend_status 200)) (storeManager lib0) (store1 [])
        (request1 ''/d1b7eb09-d1d8-4c63-b6a5-1c861a6477fa/hash'' [] ''ABC''
           ''application/octet-stream'' [1, 2, 3])
     = (http_Error ''invalid SHA256 hash size: expected 32 bytes, got 3 bytes'' 400, store1 [])"
proof -
  let ?p = "''/d1b7eb09-d1d8-4c63-b6a5-1c861a6477fa/hash''"
  let ?s = "signer0 (backend_status 200)"
  let ?b64 = "''AAAAAAAAAAAAAAAAAAAAAAAAAAAAAAAAAAAAAAAAAAA=''"
  let ?bin = "''application/octet-stream''"
  define hdr1 where "hdr1 ct = (\<lambda>k. case map_of (ReqHeader (request1 ?p [] ''ABC'' ct [])) k of
                                     Some (v # vs) \<Rightarrow> v | _ \<Rightarrow> [])" for ct
  define hdrt where "hdrt ce = (\<lambda>k. case map_of (ReqHeader (request_text ce [])) k of
                                     Some (v # vs) \<Rightarrow> v | _ \<Rightarrow> [])" for ce
  have pre1: "Body (request1 ?p [] ''ABC'' ?bin b) = Inr b
      \<and> suffix ''/hash'' (URLPath (request1 ?p [] ''ABC'' ?bin b))
      \<and> hdr1 ?bin = (\<lambda>k. case map_of (ReqHeader (request1 ?p [] ''ABC'' ?bin b)) k of
                            Some (v # vs) \<Rightarrow> v | _ \<Rightarrow> [])
      \<and> ?bin = strings_ToLower (Protocol ?s) (hdr1 ?bin ''Content-Type'')
      \<and> [] = strings_ToLower (Protocol ?s) (hdr1 ?bin ''Content-Transfer-Encoding'')" for b
    by (simp add: request1_def suffix_def hdr1_def signer0_def lib0_def)
  have pret: "Body (request_text ce b) = Inr b
      \<and> suffix ''/hash'' (URLPath (request_text ce b))
      \<and> hdrt ce = (\<lambda>k. case map_of (ReqHeader (request_text ce b)) k of
                          Some (v # vs) \<Rightarrow> v | _ \<Rightarrow> [])
      \<and> ''text/plain'' = strings_ToLower (Protocol ?s) (hdrt ce ''Content-Type'')
      \<and> ce = strings_ToLower (Protocol ?s) (hdrt ce ''Content-Transfer-Encoding'')" for ce b
    by (simp add: request_text_def suffix_def hdrt_def signer0_def lib0_def)
  have hex: "hex_DecodeString lib0 (replicate 64 (CHR ''0'')) = (replicate 32 0, None)"
    by (simp add: lib0_def)
  have b64: "base64_DecodeString lib0 ?b64 = (replicate 32 0, None)"
    by (simp add: lib0_def)
  have 1: "GetHash lib0 (request1 ?p [] ''ABC'' ?bin hash1) = Inr hash1"
    using hash_request [where r = "request1 ?p [] ''ABC'' ?bin hash1" and body = hash1
            and s = ?s and h = hash1, THEN mp, OF pre1, THEN conjunct1]
    by (simp add: signer0_def)
  have 2: "GetHash lib0 (request_text ''hex'' (bytes_of (replicate 64 (CHR ''0'')))) = Inr (replicate 32 0)"
    using hash_request [where r = "request_text ''hex'' (bytes_of (replicate 64 (CHR ''0'')))"
            and s = ?s and h = "replicate 32 0", THEN mp, OF pret, THEN conjunct1]
    by (simp add: signer0_def hex)
  have 3: "GetHash lib0 (request_text ''base64'' (bytes_of ?b64)) = Inr (replicate 32 0)"
    using hash_request [where r = "request_text ''base64'' (bytes_of ?b64)"
            and s = ?s and h = "replicate 32 0", THEN mp, OF pret, THEN conjunct1]
    by (simp add: signer0_def b64)
  have pre4: "GetUUID (Protocol ?s) (request_text ''hex'' (bytes_of ?b64)) = Inr uid1
      \<and> GetAuthToken (Protocol ?s) (storeManager lib0) (store1 []) uid1 = Inr ''ABC''
      \<and> hdrt ''hex'' ''X-Auth-Token'' = ''ABC''
      \<and> GetHash (Protocol ?s) (request_text ''hex'' (bytes_of ?b64))
          = Inl (Errorf ''decoding hex encoded hash failed: encoding/hex: invalid byte ()'')"
    using GetHash_not_hex
    by (simp add: request_text_def hdrt_def GetUUID_def URLParam_def UUIDKey_def GetAuthToken_def
          signer0_def fixture_defs)
  have 4: "ChainingService_HandleRequest ?s (storeManager lib0) (store1 [])
             (request_text ''hex'' (bytes_of ?b64))
           = (http_Error ''decoding hex encoded hash failed: encoding/hex: invalid byte ()'' 400,
              store1 [])"
    using hash_request [where r = "request_text ''hex'' (bytes_of ?b64)" and s = ?s,
            THEN mp, OF pret, THEN conjunct2, THEN mp, OF pre4, THEN conjunct1]
    by simp
  have pre5: "GetUUID (Protocol ?s) (request1 ?p [] ''ABC'' ?bin [1, 2, 3]) = Inr uid1
      \<and> GetAuthToken (Protocol ?s) (storeManager lib0) (store1 []) uid1 = Inr ''ABC''
      \<and> hdr1 ?bin ''X-Auth-Token'' = ''ABC''
      \<and> GetHash (Protocol ?s) (request1 ?p [] ''ABC'' ?bin [1, 2, 3])
          = Inl (Errorf ''invalid SHA256 hash size: expected 32 bytes, got 3 bytes'')"
    using GetHash_short [of "[]" "''ABC''"]
    by (simp add: request1_def hdr1_def GetUUID_def URLParam_def UUIDKey_def GetAuthToken_def
          signer0_def fixture_defs BinType_def)
  have 5: "ChainingService_HandleRequest ?s (storeManager lib0) (store1 [])
             (request1 ?p [] ''ABC'' ?bin [1, 2, 3])
           = (http_Error ''invalid SHA256 hash size: expected 32 bytes, got 3 bytes'' 400, store1 [])"
    using hash_request [where r = "request1 ?p [] ''ABC'' ?bin [1, 2, 3]" and s = ?s,
            THEN mp, OF pre1, THEN conjunct2, THEN mp, OF pre5, THEN conjunct1]
    by simp
  from 1 2 3 4 5 show ?thesis by simp
qed

section \<open>A wrong auth token (C8)\<close>

text \<open>
  C8. When the uid of the request parses and the store holds a token for it that
  differs from the \<open>X-Auth-Token\<close> header, both handlers call \<open>http.Error\<close> with the
  message \<open>invalid auth token\<close> and status 401, and the store is as it was. The reply
  does not depend on the signer, the backend or \<open>SendChainedUpp\<close>: no envelope is
  built and none is sent.
\<close>

theorem bad_token_unauthorized:
  "GetUUID (Protocol s) r = Inr uid \<and> GetAuthToken (Protocol s) cm st uid = Inr tok
   \<and> AuthToken_of (ReqHeader r) \<noteq> tok
   \<longrightarrow> ChainingService_HandleRequest s cm st r = (http_Error ''invalid auth token'' 401, st)
       \<and> SigningService_HandleRequest s cm st r = (http_Error ''invalid auth token'' 401, st)"
  by (auto simp: ChainingService_HandleRequest_def SigningService_HandleRequest_def
        CheckAuth_simps StatusUnauthorized_def)

text \<open>The theorem on the identity of scenario S1 (token \<open>ABC\<close>) and the token \<open>XYZ\<close>.\<close>

theorem bad_token_unauthorized_witness:
  "ChainingService_HandleRequest (signer0 (backend_status 200)) (storeManager lib0) (store1 [])
     (request1 ''/d1b7eb09-d1d8-4c63-b6a5-1c861a6477fa'' [] ''XYZ'' BinType hash1)
     = (http_Error ''invalid auth token'' 401, store1 [])
   \<and> SigningService_HandleRequest (signer0 (backend_status 200)) (storeManager lib0) (store1 [])
     (request1 ''/d1b7eb09-d1d8-4c63-b6a5-1c861a6477fa/anchor'' ''anchor'' ''XYZ'' BinType hash1)
     = (http_Error ''invalid auth token'' 401, store1 [])"
  using bad_token_unauthorized [of "signer0 (backend_status 200)"
          "request1 ''/d1b7eb09-d1d8-4c63-b6a5-1c861a6477fa'' [] ''XYZ'' BinType hash1" uid1
          "storeManager lib0" "store1 []" "''ABC''", THEN mp, THEN conjunct1]
        bad_token_unauthorized [of "signer0 (backend_status 200)"
          "request1 ''/d1b7eb09-d1d8-4c63-b6a5-1c861a6477fa/anchor'' ''anchor'' ''XYZ'' BinType hash1"
          uid1 "storeManager lib0" "store1 []" "''ABC''", THEN mp, THEN conjunct2]
  by (simp add: request_defs fixture_defs)

section \<open>Loading the configuration (C10)\<close>

lemma strings_Split_no_sep: "sep \<notin> set s \<Longrightarrow> strings_Split s sep = [s]"
  by (induction s) auto

lemma setDefaultURLs_panics:
  "Niomon c \<noteq> [] \<Longrightarrow> CHR ''.'' \<notin> set (Niomon c)
   \<Longrightarrow> setDefaultURLs c = Panics ''runtime error: index out of range [1] with length 1''"
  by (simp add: setDefaultURLs_def Let_def strings_Split_no_sep decimal.simps)

text \<open>
  C10 does not hold of the code: \<open>Load\<close> panics on a configuration with a device, a
  secret of 16 bytes and the Niomon URL \<open>http://localhost:8080/\<close>, which has no dot.
  (\<open>setDefaultURLs_panics\<close> above: so does every Niomon URL without a dot.)
\<close>

theorem Load_panics:
  "Load lib0 (\<lambda>dir file. dir @ ''/'' @ file) ''.'' (config1 ''http://localhost:8080/'', None)
     = Panics ''runtime error: index out of range [1] with length 1''"
  by (simp add: Load_def lib0_def config1_def checkMandatory_def bytes_of_def setDefaultTLS_def
        setDefaultURLs_panics)

end
